theory Spec2Isabelle
  imports Complex_Main
begin

section \<open>Data model (schema.sql)\<close>

text \<open>
  The tables of \<^verbatim>\<open>schema.sql\<close> that the booking core reads and writes. A UUID is a
  natural number, a DATE (and the "YYYY-MM-DD" string the JavaScript passes for it) is its day
  number since 1970-01-01, a TIMESTAMPTZ is a number of milliseconds since the epoch and a TIME
  is the triple (hour, minute, second). The INTEGER columns \<^verbatim>\<open>max_slots\<close>,
  \<^verbatim>\<open>slot_number\<close>, \<^verbatim>\<open>year\<close> and \<^verbatim>\<open>last_seq\<close> only ever hold
  non-negative values (a CHECK, a count plus one, a calendar year, a counter from 1) and are
  naturals.
\<close>

type_synonym uuid = nat
type_synonym date = int
type_synonym timestamptz = int
type_synonym time_of_day = "nat \<times> nat \<times> nat"

datatype status = Pending | Verified | In_consultation | Completed | Cancelled | No_show

text \<open>The CHECK constraint on the TEXT column \<^verbatim>\<open>status\<close>: one of six values.\<close>

definition status_of_text :: "string \<Rightarrow> status option" where
  "status_of_text t =
     (if t = ''pending'' then Some Pending
      else if t = ''verified'' then Some Verified
      else if t = ''in_consultation'' then Some In_consultation
      else if t = ''completed'' then Some Completed
      else if t = ''cancelled'' then Some Cancelled
      else if t = ''no_show'' then Some No_show
      else None)"

text \<open>A row of \<^verbatim>\<open>opd_slot_templates\<close> or \<^verbatim>\<open>clinic_slot_templates\<close> (the latter
  carries the clinic).\<close>

record slot_template =
  tpl_clinic_id :: "uuid option"
  day_of_week :: nat
  start_time :: time_of_day
  end_time :: time_of_day
  max_slots :: nat
  is_active :: bool

text \<open>A row of \<^verbatim>\<open>opd_bookings\<close> or \<^verbatim>\<open>clinic_bookings\<close> (the latter carries the
  clinic).\<close>

record booking =
  booking_id :: uuid
  patient_id :: uuid
  clinic_id :: "uuid option"
  booking_date :: date
  template_id :: uuid
  slot_number :: nat
  status :: status
  verified_by :: "uuid option"
  verified_at :: "timestamptz option"
  booked_at :: timestamptz
  cancelled_at :: "timestamptz option"
  cancellation_reason :: "string option"

text \<open>
  The database. Tables keyed by a primary key that is only looked up are association lists
  or maps; the booking tables are lists in insertion order. Of \<^verbatim>\<open>patients\<close>,
  \<^verbatim>\<open>admin_users\<close> and \<^verbatim>\<open>clinics\<close> only the primary keys matter here (they are
  the targets of foreign keys).
\<close>

record db =
  patients :: "uuid list"
  admin_users :: "uuid list"
  clinics :: "uuid list"
  opd_slot_templates :: "(uuid \<times> slot_template) list"
  clinic_slot_templates :: "(uuid \<times> slot_template) list"
  blocked_dates :: "date list"
  opd_bookings :: "booking list"
  clinic_bookings :: "booking list"
  patient_id_sequence :: "nat \<rightharpoonup> nat"

text \<open>
  What the surroundings supply to one call: a failure that keeps the call from reaching the
  database (the \<^verbatim>\<open>error\<close> object of the Supabase client or a thrown exception, with
  its message), the clock (\<^verbatim>\<open>NOW()\<close>, \<^verbatim>\<open>new Date()\<close>), and the value drawn by
  \<^verbatim>\<open>gen_random_uuid()\<close>.
\<close>

record env =
  infra :: "string option"
  now :: timestamptz
  fresh_uuid :: uuid

text \<open>Errors raised by PostgreSQL, with the table and the constraint they name.\<close>

datatype db_error =
  Unique_violation string
  | Foreign_key_violation string string
  | Check_violation string string

definition quoted :: "string \<Rightarrow> string" where
  "quoted n = [CHR 0x22] @ n @ [CHR 0x22]"

fun message :: "db_error \<Rightarrow> string" where
  "message (Unique_violation c) =
     ''duplicate key value violates unique constraint '' @ quoted c"
| "message (Foreign_key_violation t c) =
     ''insert or update on table '' @ quoted t @ '' violates foreign key constraint '' @ quoted c"
| "message (Check_violation t c) =
     ''new row for relation '' @ quoted t @ '' violates check constraint '' @ quoted c"

section \<open>Queries shared by the stored procedures\<close>

text \<open>\<^verbatim>\<open>status NOT IN ('cancelled', 'no_show')\<close>\<close>

definition non_terminal :: "booking \<Rightarrow> bool" where
  "non_terminal b = (status b \<noteq> Cancelled \<and> status b \<noteq> No_show)"

text \<open>The rows of a booking table for one (date, template).\<close>

definition slot_rows :: "date \<Rightarrow> uuid \<Rightarrow> booking list \<Rightarrow> booking list" where
  "slot_rows d t tbl = filter (\<lambda>b. booking_date b = d \<and> template_id b = t) tbl"

text \<open>\<^verbatim>\<open>SELECT COUNT(*) ... WHERE booking_date = d AND template_id = t AND status NOT IN (...)\<close>\<close>

definition booked_count :: "date \<Rightarrow> uuid \<Rightarrow> booking list \<Rightarrow> nat" where
  "booked_count d t tbl = length (filter non_terminal (slot_rows d t tbl))"

text \<open>\<^verbatim>\<open>EXISTS (SELECT 1 ... WHERE patient_id = p AND booking_date = d AND status NOT IN (...))\<close>\<close>

definition patient_booked :: "uuid \<Rightarrow> date \<Rightarrow> booking list \<Rightarrow> bool" where
  "patient_booked p d tbl =
     (filter (\<lambda>b. patient_id b = p \<and> booking_date b = d \<and> non_terminal b) tbl \<noteq> [])"

text \<open>
  \<^verbatim>\<open>INSERT INTO <table> ...\<close> under the table's constraints: the primary key, then
  \<^verbatim>\<open>UNIQUE(booking_date, template_id, slot_number)\<close> (both over every row, whatever its
  status), then the foreign keys to \<^verbatim>\<open>patients\<close> and \<^verbatim>\<open>clinics\<close>. The foreign key
  to the template table holds by the lookup that precedes the insert.
\<close>

definition insert_booking ::
  "string \<Rightarrow> db \<Rightarrow> booking \<Rightarrow> booking list \<Rightarrow> db_error + booking list" where
  "insert_booking tname s row tbl =
     (if booking_id row \<in> set (map booking_id tbl) then
        Inl (Unique_violation (tname @ ''_pkey''))
      else if slot_number row \<in> set (map slot_number (slot_rows (booking_date row) (template_id row) tbl)) then
        Inl (Unique_violation (tname @ ''_booking_date_template_id_slot_number_key''))
      else if patient_id row \<notin> set (patients s) then
        Inl (Foreign_key_violation tname (tname @ ''_patient_id_fkey''))
      else if (case clinic_id row of None \<Rightarrow> False | Some c \<Rightarrow> c \<notin> set (clinics s)) then
        Inl (Foreign_key_violation tname (tname @ ''_clinic_id_fkey''))
      else Inr (tbl @ [row]))"

text \<open>The row an insert builds: the named columns, every other column at its default.\<close>

definition new_booking :: "env \<Rightarrow> uuid \<Rightarrow> uuid option \<Rightarrow> date \<Rightarrow> uuid \<Rightarrow> nat \<Rightarrow> booking" where
  "new_booking e p c d t n =
     \<lparr>booking_id = fresh_uuid e, patient_id = p, clinic_id = c, booking_date = d,
      template_id = t, slot_number = n, status = Pending, verified_by = None,
      verified_at = None, booked_at = now e, cancelled_at = None,
      cancellation_reason = None\<rparr>"

section \<open>Stored procedures (schema.sql)\<close>

text \<open>The JSONB object a booking procedure returns.\<close>

datatype jsonb = Booked uuid nat | Refused string

text \<open>
  \<^verbatim>\<open>book_opd_slot(p_patient_id, p_booking_date, p_template_id)\<close>. The result is the
  returned object or the error raised by the insert (which rolls the call back), and the
  database after the call.
\<close>

definition book_opd_slot :: "env \<Rightarrow> uuid \<Rightarrow> date \<Rightarrow> uuid \<Rightarrow> db \<Rightarrow> (db_error + jsonb) \<times> db" where
  "book_opd_slot e p_patient_id p_booking_date p_template_id s =
     (case map_of (opd_slot_templates s) p_template_id of
        None \<Rightarrow> (Inr (Refused ''Template not found''), s)
      | Some tpl \<Rightarrow>
          let v_max_slots = max_slots tpl;
              v_booked_count = booked_count p_booking_date p_template_id (opd_bookings s)
          in if v_booked_count \<ge> v_max_slots then
               (Inr (Refused ''Slot is fully booked''), s)
             else if patient_booked p_patient_id p_booking_date (opd_bookings s) then
               (Inr (Refused ''You already have an OPD booking on this date''), s)
             else if patient_booked p_patient_id p_booking_date (clinic_bookings s) then
               (Inr (Refused ''You already have a clinic booking on this date''), s)
             else
               let v_slot_number = v_booked_count + 1 in
               (case insert_booking ''opd_bookings'' s
                       (new_booking e p_patient_id None p_booking_date p_template_id v_slot_number)
                       (opd_bookings s) of
                  Inl err \<Rightarrow> (Inl err, s)
                | Inr tbl \<Rightarrow>
                    (Inr (Booked (fresh_uuid e) v_slot_number), s\<lparr>opd_bookings := tbl\<rparr>)))"

text \<open>\<^verbatim>\<open>book_clinic_slot(p_patient_id, p_clinic_id, p_booking_date, p_template_id)\<close>\<close>

definition book_clinic_slot ::
  "env \<Rightarrow> uuid \<Rightarrow> uuid \<Rightarrow> date \<Rightarrow> uuid \<Rightarrow> db \<Rightarrow> (db_error + jsonb) \<times> db" where
  "book_clinic_slot e p_patient_id p_clinic_id p_booking_date p_template_id s =
     (case map_of (clinic_slot_templates s) p_template_id of
        None \<Rightarrow> (Inr (Refused ''Template not found''), s)
      | Some tpl \<Rightarrow>
          let v_max_slots = max_slots tpl;
              v_booked_count = booked_count p_booking_date p_template_id (clinic_bookings s)
          in if v_booked_count \<ge> v_max_slots then
               (Inr (Refused ''Slot is fully booked''), s)
             else if patient_booked p_patient_id p_booking_date (opd_bookings s) then
               (Inr (Refused ''You already have an OPD booking on this date''), s)
             else if patient_booked p_patient_id p_booking_date (clinic_bookings s) then
               (Inr (Refused ''You already have a clinic booking on this date''), s)
             else
               let v_slot_number = v_booked_count + 1 in
               (case insert_booking ''clinic_bookings'' s
                       (new_booking e p_patient_id (Some p_clinic_id) p_booking_date
                          p_template_id v_slot_number)
                       (clinic_bookings s) of
                  Inl err \<Rightarrow> (Inl err, s)
                | Inr tbl \<Rightarrow>
                    (Inr (Booked (fresh_uuid e) v_slot_number), s\<lparr>clinic_bookings := tbl\<rparr>)))"

section \<open>Client operations (supabase.js)\<close>

text \<open>The objects the client functions resolve to: \<^verbatim>\<open>{error}\<close> and \<^verbatim>\<open>{data, error}\<close>.\<close>

record outcome =
  error :: "string option"

record data_outcome = outcome +
  data :: "jsonb option"

text \<open>\<^verbatim>\<open>bookOPDSlot(patientId, bookingDate, templateId)\<close>\<close>

definition bookOPDSlot :: "env \<Rightarrow> uuid \<Rightarrow> date \<Rightarrow> uuid \<Rightarrow> db \<Rightarrow> data_outcome \<times> db" where
  "bookOPDSlot e patientId bookingDate templateId s =
     (case infra e of
        Some msg \<Rightarrow> (\<lparr>error = Some msg, data = None\<rparr>, s)
      | None \<Rightarrow>
          (case book_opd_slot e patientId bookingDate templateId s of
             (Inl err, s') \<Rightarrow> (\<lparr>error = Some (message err), data = None\<rparr>, s')
           | (Inr (Refused msg), s') \<Rightarrow> (\<lparr>error = Some msg, data = None\<rparr>, s')
           | (Inr (Booked b n), s') \<Rightarrow> (\<lparr>error = None, data = Some (Booked b n)\<rparr>, s')))"

text \<open>\<^verbatim>\<open>bookClinicSlot(patientId, clinicId, bookingDate, templateId)\<close>\<close>

definition bookClinicSlot ::
  "env \<Rightarrow> uuid \<Rightarrow> uuid \<Rightarrow> date \<Rightarrow> uuid \<Rightarrow> db \<Rightarrow> data_outcome \<times> db" where
  "bookClinicSlot e patientId clinicId bookingDate templateId s =
     (case infra e of
        Some msg \<Rightarrow> (\<lparr>error = Some msg, data = None\<rparr>, s)
      | None \<Rightarrow>
          (case book_clinic_slot e patientId clinicId bookingDate templateId s of
             (Inl err, s') \<Rightarrow> (\<lparr>error = Some (message err), data = None\<rparr>, s')
           | (Inr (Refused msg), s') \<Rightarrow> (\<lparr>error = Some msg, data = None\<rparr>, s')
           | (Inr (Booked b n), s') \<Rightarrow> (\<lparr>error = None, data = Some (Booked b n)\<rparr>, s')))"

text \<open>
  The update both cancel functions send:
  \<^verbatim>\<open>.update({status: 'cancelled', cancelled_at, cancellation_reason}).eq('id', bookingId)
  .eq('patient_id', patientId).in('status', ['pending'])\<close>.
  The reason defaults to "Cancelled by patient".
\<close>

definition cancel_rows ::
  "timestamptz \<Rightarrow> uuid \<Rightarrow> uuid \<Rightarrow> string option \<Rightarrow> booking list \<Rightarrow> booking list" where
  "cancel_rows t bookingId patientId reason tbl =
     map (\<lambda>b. if booking_id b = bookingId \<and> patient_id b = patientId \<and> status b = Pending
              then b\<lparr>status := Cancelled, cancelled_at := Some t,
                     cancellation_reason :=
                       Some (case reason of None \<Rightarrow> ''Cancelled by patient'' | Some r \<Rightarrow> r)\<rparr>
              else b) tbl"

text \<open>\<^verbatim>\<open>cancelOPDBooking(bookingId, patientId, reason)\<close>\<close>

definition cancelOPDBooking ::
  "env \<Rightarrow> uuid \<Rightarrow> uuid \<Rightarrow> string option \<Rightarrow> db \<Rightarrow> outcome \<times> db" where
  "cancelOPDBooking e bookingId patientId reason s =
     (case infra e of
        Some msg \<Rightarrow> (\<lparr>error = Some msg\<rparr>, s)
      | None \<Rightarrow>
          (\<lparr>error = None\<rparr>,
           s\<lparr>opd_bookings := cancel_rows (now e) bookingId patientId reason (opd_bookings s)\<rparr>))"

text \<open>\<^verbatim>\<open>cancelClinicBooking(bookingId, patientId, reason)\<close>\<close>

definition cancelClinicBooking ::
  "env \<Rightarrow> uuid \<Rightarrow> uuid \<Rightarrow> string option \<Rightarrow> db \<Rightarrow> outcome \<times> db" where
  "cancelClinicBooking e bookingId patientId reason s =
     (case infra e of
        Some msg \<Rightarrow> (\<lparr>error = Some msg\<rparr>, s)
      | None \<Rightarrow>
          (\<lparr>error = None\<rparr>,
           s\<lparr>clinic_bookings :=
               cancel_rows (now e) bookingId patientId reason (clinic_bookings s)\<rparr>))"

text \<open>
  \<^verbatim>\<open>updateBookingStatus(bookingType, bookingId, newStatus, adminId)\<close>: one update of
  the row with the given id, in the table the booking type selects. A new status outside the
  six values fails the column's CHECK and a verifier that is no administrator fails the
  foreign key of \<^verbatim>\<open>verified_by\<close>, in both cases only when a row is addressed.
\<close>

definition status_rows ::
  "timestamptz \<Rightarrow> uuid \<Rightarrow> status \<Rightarrow> uuid \<Rightarrow> booking list \<Rightarrow> booking list" where
  "status_rows t bookingId st adminId tbl =
     map (\<lambda>b. if booking_id b = bookingId
              then (if st = Verified
                    then b\<lparr>status := st, verified_by := Some adminId, verified_at := Some t\<rparr>
                    else b\<lparr>status := st\<rparr>)
              else b) tbl"

definition updateBookingStatus ::
  "env \<Rightarrow> string \<Rightarrow> uuid \<Rightarrow> string \<Rightarrow> uuid \<Rightarrow> db \<Rightarrow> outcome \<times> db" where
  "updateBookingStatus e bookingType bookingId newStatus adminId s =
     (case infra e of
        Some msg \<Rightarrow> (\<lparr>error = Some msg\<rparr>, s)
      | None \<Rightarrow>
          let opd = (bookingType = ''opd'');
              table = (if opd then ''opd_bookings'' else ''clinic_bookings'');
              tbl = (if opd then opd_bookings s else clinic_bookings s)
          in if filter (\<lambda>b. booking_id b = bookingId) tbl = [] then (\<lparr>error = None\<rparr>, s)
             else
               (case status_of_text newStatus of
                  None \<Rightarrow>
                    (\<lparr>error = Some (message (Check_violation table (table @ ''_status_check'')))\<rparr>, s)
                | Some st \<Rightarrow>
                    if st = Verified \<and> adminId \<notin> set (admin_users s) then
                      (\<lparr>error = Some (message
                          (Foreign_key_violation table (table @ ''_verified_by_fkey'')))\<rparr>, s)
                    else if opd then
                      (\<lparr>error = None\<rparr>,
                       s\<lparr>opd_bookings := status_rows (now e) bookingId st adminId tbl\<rparr>)
                    else
                      (\<lparr>error = None\<rparr>,
                       s\<lparr>clinic_bookings := status_rows (now e) bookingId st adminId tbl\<rparr>)))"

section \<open>Cancellation window (admin-auth.js, config.js)\<close>


text \<open>\<^verbatim>\<open>Date.UTC(year, month - 1, day, hour, min, 0)\<close> of a day number, in milliseconds.\<close>

definition Date_UTC :: "date \<Rightarrow> nat \<Rightarrow> nat \<Rightarrow> int" where
  "Date_UTC d hour mins = d * 86400000 + int hour * 3600000 + int mins * 60000"



section \<open>Patient identifiers (schema.sql)\<close>

text \<open>The cast of a non-negative INTEGER to TEXT: its decimal digits.\<close>

definition digit :: "nat \<Rightarrow> char" where
  "digit d = ''0123456789'' ! d"

fun text_of_nat :: "nat \<Rightarrow> string" where
  "text_of_nat n = (if n < 10 then [digit n] else text_of_nat (n div 10) @ [digit (n mod 10)])"

declare text_of_nat.simps [simp del]

text \<open>
  PostgreSQL's \<^verbatim>\<open>LPAD(string, length, fill)\<close> with a one-character fill: a shorter
  string is extended on the left, a longer one is truncated on the right.
\<close>

definition LPAD :: "string \<Rightarrow> nat \<Rightarrow> char \<Rightarrow> string" where
  "LPAD str n fill =
     (if length str \<ge> n then take n str else replicate (n - length str) fill @ str)"

text \<open>
  \<^verbatim>\<open>generate_patient_id()\<close>, with \<^verbatim>\<open>EXTRACT(YEAR FROM NOW())\<close> as argument: the
  upsert of the year's row and the identifier built from the returned \<^verbatim>\<open>last_seq\<close>,
  \<^verbatim>\<open>'AMH' || current_year || LPAD(next_seq::TEXT, 6, '0')\<close>.
\<close>

definition patient_id_text :: "nat \<Rightarrow> nat \<Rightarrow> string" where
  "patient_id_text current_year next_seq =
     ''AMH'' @ text_of_nat current_year @ LPAD (text_of_nat next_seq) 6 (CHR ''0'')"

definition generate_patient_id :: "nat \<Rightarrow> db \<Rightarrow> string \<times> db" where
  "generate_patient_id current_year s =
     (let next_seq = (case patient_id_sequence s current_year of None \<Rightarrow> 1 | Some n \<Rightarrow> n + 1)
      in (patient_id_text current_year next_seq,
          s\<lparr>patient_id_sequence := (patient_id_sequence s)(current_year \<mapsto> next_seq)\<rparr>))"

text \<open>The identifiers returned by \<open>n\<close> calls in a row within one year, and the database after them.\<close>

fun generate_ids :: "nat \<Rightarrow> nat \<Rightarrow> db \<Rightarrow> string list \<times> db" where
  "generate_ids 0 y s = ([], s)"
| "generate_ids (Suc n) y s =
     (case generate_patient_id y s of
        (i, s') \<Rightarrow> (case generate_ids n y s' of (is, s'') \<Rightarrow> (i # is, s'')))"

text \<open>The number a string of decimal digits denotes.\<close>

definition digit_value :: "char \<Rightarrow> nat" where
  "digit_value c = of_char c - 48"

definition nat_of_text :: "string \<Rightarrow> nat" where
  "nat_of_text str = foldl (\<lambda>acc c. 10 * acc + digit_value c) 0 str"

section \<open>Sequences of ledger operations\<close>

text \<open>
  The write surface of the booking ledger: allocation and patient cancellation in both
  categories, and the staff's status update. A history is a list of such calls, each with what
  its surroundings supplied.
\<close>

datatype ledger_op =
  BookOPD env uuid date uuid
  | BookClinic env uuid uuid date uuid
  | CancelOPD env uuid uuid "string option"
  | CancelClinic env uuid uuid "string option"
  | UpdateStatus env string uuid string uuid

fun exec :: "ledger_op \<Rightarrow> db \<Rightarrow> db" where
  "exec (BookOPD e p d t) s = snd (bookOPDSlot e p d t s)"
| "exec (BookClinic e p c d t) s = snd (bookClinicSlot e p c d t s)"
| "exec (CancelOPD e b p r) s = snd (cancelOPDBooking e b p r s)"
| "exec (CancelClinic e b p r) s = snd (cancelClinicBooking e b p r s)"
| "exec (UpdateStatus e ty b st a) s = snd (updateBookingStatus e ty b st a s)"

fun run :: "ledger_op list \<Rightarrow> db \<Rightarrow> db" where
  "run [] s = s"
| "run (x # xs) s = run xs (exec x s)"

fun is_cancel :: "ledger_op \<Rightarrow> bool" where
  "is_cancel (CancelOPD e b p r) = True"
| "is_cancel (CancelClinic e b p r) = True"
| "is_cancel _ = False"

text \<open>
  Two properties of a booking table that every history keeps: the slot numbers of the rows of
  a (date, template), in insertion order and whatever their status, are 1, 2, ... up to the
  number of rows; and that number is within the capacity of the template (0 for a template that
  does not exist).
\<close>

definition slot_numbers :: "date \<Rightarrow> uuid \<Rightarrow> booking list \<Rightarrow> nat list" where
  "slot_numbers d t tbl = map slot_number (slot_rows d t tbl)"

definition capacity :: "(uuid \<times> slot_template) list \<Rightarrow> uuid \<Rightarrow> nat" where
  "capacity tpls t = (case map_of tpls t of None \<Rightarrow> 0 | Some r \<Rightarrow> max_slots r)"

definition numbered :: "booking list \<Rightarrow> bool" where
  "numbered tbl = (\<forall>d t. slot_numbers d t tbl = [1..<Suc (length (slot_rows d t tbl))])"

definition capped :: "(uuid \<times> slot_template) list \<Rightarrow> booking list \<Rightarrow> bool" where
  "capped tpls tbl = (\<forall>d t. length (slot_rows d t tbl) \<le> capacity tpls t)"

definition ledger_inv :: "db \<Rightarrow> bool" where
  "ledger_inv s =
     (numbered (opd_bookings s) \<and> numbered (clinic_bookings s)
      \<and> capped (opd_slot_templates s) (opd_bookings s)
      \<and> capped (clinic_slot_templates s) (clinic_bookings s))"

text \<open>
  What a cancellation may do to a row's status: leave it, or take it from pending to
  cancelled.
\<close>

definition cancel_step :: "booking \<Rightarrow> booking \<Rightarrow> bool" where
  "cancel_step b b' = (status b' = status b \<or> (status b = Pending \<and> status b' = Cancelled))"

section \<open>The specification's outcome names\<close>

text \<open>
  The specification names the rejections; the code returns messages. This is the reading of
  the messages the procedures return under the specification's names. Any other message (in
  particular a storage error's) has no name.
\<close>

datatype rejection =
  TemplateNotFound | DateNotBookable | SlotFull | PatientAlreadyBooked
  | InvalidStatusTransition | CancellationWindowExpired

definition rejection_of :: "string \<Rightarrow> rejection option" where
  "rejection_of msg =
     (if msg = ''Template not found'' then Some TemplateNotFound
      else if msg = ''Slot is fully booked'' then Some SlotFull
      else if msg = ''You already have an OPD booking on this date'' then Some PatientAlreadyBooked
      else if msg = ''You already have a clinic booking on this date'' then Some PatientAlreadyBooked
      else None)"

definition refusal :: "data_outcome \<Rightarrow> rejection option" where
  "refusal r = (case error r of None \<Rightarrow> None | Some msg \<Rightarrow> rejection_of msg)"

section \<open>A small hospital\<close>

text \<open>
  One general time box (template 10) and one clinic time box (template 20, clinic 70), both on
  Tuesdays from 09:00 with capacity 2; patients 1 to 4; administrator 90; no bookings. Day
  20522 is Tuesday 2026-03-10.
\<close>

definition tuesday_box :: slot_template where
  "tuesday_box = \<lparr>tpl_clinic_id = None, day_of_week = 2, start_time = (9, 0, 0),
     end_time = (12, 0, 0), max_slots = 2, is_active = True\<rparr>"

definition hospital :: db where
  "hospital = \<lparr>patients = [1, 2, 3, 4], admin_users = [90], clinics = [70],
     opd_slot_templates = [(10, tuesday_box)],
     clinic_slot_templates = [(20, tuesday_box\<lparr>tpl_clinic_id := Some 70\<rparr>)],
     blocked_dates = [], opd_bookings = [], clinic_bookings = [],
     patient_id_sequence = Map.empty\<rparr>"

definition call :: "timestamptz \<Rightarrow> uuid \<Rightarrow> env" where
  "call t u = \<lparr>infra = None, now = t, fresh_uuid = u\<rparr>"

text \<open>Patients 1 and 2 book the general time box on 2026-03-10 and get slots 1 and 2.\<close>

definition two_booked :: db where
  "two_booked = run [BookOPD (call 1000 101) 1 20522 10, BookOPD (call 2000 102) 2 20522 10] hospital"

text \<open>Then patient 1 cancels the booking with slot 1.\<close>

definition first_cancelled :: db where
  "first_cancelled = run [CancelOPD (call 3000 0) 101 1 None] two_booked"


text \<open>Patient 3 books the clinic time box on 2026-03-10.\<close>

definition clinic_booked :: db where
  "clinic_booked = run [BookClinic (call 1000 201) 3 70 20522 20] hospital"

text \<open>
  The same database under another calendar: other blocked dates, and another active flag and
  weekday on every template.
\<close>

definition recalendared :: "date list \<Rightarrow> (uuid \<Rightarrow> bool) \<Rightarrow> (uuid \<Rightarrow> nat) \<Rightarrow> db \<Rightarrow> db" where
  "recalendared bd act dow s =
     s\<lparr>blocked_dates := bd,
       opd_slot_templates :=
         map (\<lambda>(k, r). (k, r\<lparr>is_active := act k, day_of_week := dow k\<rparr>)) (opd_slot_templates s),
       clinic_slot_templates :=
         map (\<lambda>(k, r). (k, r\<lparr>is_active := act k, day_of_week := dow k\<rparr>)) (clinic_slot_templates s)\<rparr>"

text \<open>\<^verbatim>\<open>EXTRACT(DOW FROM p_date)\<close>: 0 is Sunday; day 0 was a Thursday.\<close>

definition EXTRACT_DOW :: "date \<Rightarrow> nat" where
  "EXTRACT_DOW d = nat ((d + 4) mod 7)"

text \<open>
  The hospital with 2026-03-10 blocked and every template deactivated and moved to Fridays.
\<close>

definition closed_day :: db where
  "closed_day = recalendared [20522] (\<lambda>_. False) (\<lambda>_. 5) hospital"

section \<open>The specification's uniqueness property\<close>

text \<open>
  The specification's words: among the non-cancelled bookings of a (date, template) the slot
  numbers are exactly 1 to N, without duplicates, N being the number of such bookings.
\<close>

definition spec_contiguous :: "date \<Rightarrow> uuid \<Rightarrow> booking list \<Rightarrow> bool" where
  "spec_contiguous d t tbl =
     (let live = filter (\<lambda>b. status b \<noteq> Cancelled) (slot_rows d t tbl)
      in distinct (map slot_number live) \<and> set (map slot_number live) = {1..length live})"

section \<open>Evaluating the small hospital\<close>

lemma two_booked_eval:
  "opd_bookings two_booked =
     [new_booking (call 1000 101) 1 None 20522 10 1, new_booking (call 2000 102) 2 None 20522 10 2]"
  "clinic_bookings two_booked = []"
  "opd_slot_templates two_booked = [(10, tuesday_box)]"
  "patients two_booked = [1, 2, 3, 4]"
  "admin_users two_booked = [90]"
  by (simp_all add: two_booked_def hospital_def bookOPDSlot_def book_opd_slot_def
      booked_count_def slot_rows_def patient_booked_def insert_booking_def new_booking_def
      call_def tuesday_box_def non_terminal_def)

lemma first_cancelled_eval:
  "opd_bookings first_cancelled =
     [(new_booking (call 1000 101) 1 None 20522 10 1)
        \<lparr>status := Cancelled, cancelled_at := Some 3000,
         cancellation_reason := Some ''Cancelled by patient''\<rparr>,
      new_booking (call 2000 102) 2 None 20522 10 2]"
  "clinic_bookings first_cancelled = []"
  "opd_slot_templates first_cancelled = [(10, tuesday_box)]"
  "patients first_cancelled = [1, 2, 3, 4]"
  "admin_users first_cancelled = [90]"
  by (simp_all add: first_cancelled_def two_booked_eval cancelOPDBooking_def cancel_rows_def
      new_booking_def call_def)

section \<open>What every history keeps\<close>

lemma booked_count_le: "booked_count d t tbl \<le> length (slot_rows d t tbl)"
  by (simp add: booked_count_def)

lemma slot_rows_append:
  "slot_rows d t (tbl @ [row]) =
     slot_rows d t tbl @ (if booking_date row = d \<and> template_id row = t then [row] else [])"
  by (simp add: slot_rows_def)

lemma slot_rows_map:
  assumes "\<And>b. booking_date (f b) = booking_date b \<and> template_id (f b) = template_id b"
  shows "slot_rows d t (map f tbl) = map f (slot_rows d t tbl)"
  using assms by (induction tbl) (simp_all add: slot_rows_def)

lemma numbered_map:
  assumes "\<And>b. booking_date (f b) = booking_date b \<and> template_id (f b) = template_id b
              \<and> slot_number (f b) = slot_number b"
  shows "numbered (map f tbl) = numbered tbl"
proof -
  have rows: "slot_rows d t (map f tbl) = map f (slot_rows d t tbl)" for d t
    using assms by (intro slot_rows_map) simp
  have "slot_number \<circ> f = slot_number"
    using assms by (simp add: fun_eq_iff)
  then have "slot_numbers d t (map f tbl) = slot_numbers d t tbl" for d t
    by (simp add: slot_numbers_def rows)
  then show ?thesis
    unfolding numbered_def by (simp add: rows)
qed

lemma capped_map:
  assumes "\<And>b. booking_date (f b) = booking_date b \<and> template_id (f b) = template_id b"
  shows "capped tpls (map f tbl) = capped tpls tbl"
  using slot_rows_map [of f, OF assms] by (simp add: capped_def)

lemma append_keeps:
  assumes num: "numbered tbl" and cap: "capped tpls tbl"
    and tpl: "map_of tpls t = Some r"
    and room: "booked_count d t tbl < max_slots r"
    and free: "Suc (booked_count d t tbl) \<notin> set (slot_numbers d t tbl)"
    and row: "booking_date row = d" "template_id row = t"
      "slot_number row = Suc (booked_count d t tbl)"
  shows "numbered (tbl @ [row]) \<and> capped tpls (tbl @ [row])"
proof -
  let ?n = "length (slot_rows d t tbl)"
  have nums: "slot_numbers d t tbl = [1..<Suc ?n]"
    using num by (simp add: numbered_def)
  have "booked_count d t tbl \<le> ?n" by (rule booked_count_le)
  moreover have "\<not> Suc (booked_count d t tbl) \<le> ?n"
    using free nums by auto
  ultimately have all: "booked_count d t tbl = ?n" by simp
  have "numbered (tbl @ [row])"
    unfolding numbered_def
  proof (intro allI)
    fix d' t'
    show "slot_numbers d' t' (tbl @ [row]) = [1..<Suc (length (slot_rows d' t' (tbl @ [row])))]"
    proof (cases "d' = d \<and> t' = t")
      case True
      then show ?thesis
        using nums row all by (simp add: slot_numbers_def slot_rows_append)
    next
      case False
      then show ?thesis
        using num row by (auto simp: numbered_def slot_numbers_def slot_rows_append)
    qed
  qed
  moreover have "capped tpls (tbl @ [row])"
    unfolding capped_def
  proof (intro allI)
    fix d' t'
    show "length (slot_rows d' t' (tbl @ [row])) \<le> capacity tpls t'"
    proof (cases "d' = d \<and> t' = t")
      case True
      then show ?thesis
        using room all tpl row by (simp add: slot_rows_append capacity_def)
    next
      case False
      then show ?thesis
        using cap row by (auto simp: capped_def slot_rows_append)
    qed
  qed
  ultimately show ?thesis by simp
qed

lemma book_opd_slot_effect:
  "snd (book_opd_slot e p d t s) = s
   \<or> (\<exists>r. map_of (opd_slot_templates s) t = Some r
          \<and> booked_count d t (opd_bookings s) < max_slots r
          \<and> Suc (booked_count d t (opd_bookings s)) \<notin> set (slot_numbers d t (opd_bookings s))
          \<and> snd (book_opd_slot e p d t s) =
              s\<lparr>opd_bookings := opd_bookings s
                   @ [new_booking e p None d t (Suc (booked_count d t (opd_bookings s)))]\<rparr>)"
  by (auto simp: book_opd_slot_def insert_booking_def Let_def new_booking_def slot_numbers_def
      split: option.splits)

lemma book_clinic_slot_effect:
  "snd (book_clinic_slot e p c d t s) = s
   \<or> (\<exists>r. map_of (clinic_slot_templates s) t = Some r
          \<and> booked_count d t (clinic_bookings s) < max_slots r
          \<and> Suc (booked_count d t (clinic_bookings s)) \<notin> set (slot_numbers d t (clinic_bookings s))
          \<and> snd (book_clinic_slot e p c d t s) =
              s\<lparr>clinic_bookings := clinic_bookings s
                   @ [new_booking e p (Some c) d t (Suc (booked_count d t (clinic_bookings s)))]\<rparr>)"
  by (auto simp: book_clinic_slot_def insert_booking_def Let_def new_booking_def slot_numbers_def
      split: option.splits)

lemma bookOPDSlot_snd: "snd (bookOPDSlot e p d t s) = s \<or> snd (bookOPDSlot e p d t s) = snd (book_opd_slot e p d t s)"
  by (auto simp: bookOPDSlot_def split: option.splits prod.splits sum.splits jsonb.splits)

lemma bookClinicSlot_snd: "snd (bookClinicSlot e p c d t s) = s \<or> snd (bookClinicSlot e p c d t s) = snd (book_clinic_slot e p c d t s)"
  by (auto simp: bookClinicSlot_def split: option.splits prod.splits sum.splits jsonb.splits)

lemma book_opd_slot_inv:
  assumes "ledger_inv s"
  shows "ledger_inv (snd (book_opd_slot e p d t s))"
proof -
  let ?c = "booked_count d t (opd_bookings s)"
  let ?row = "new_booking e p None d t (Suc ?c)"
  from book_opd_slot_effect [of e p d t s] show ?thesis
  proof (elim disjE exE conjE)
    assume "snd (book_opd_slot e p d t s) = s"
    with assms show ?thesis by simp
  next
    fix r
    assume tpl: "map_of (opd_slot_templates s) t = Some r"
      and room: "?c < max_slots r"
      and free: "Suc ?c \<notin> set (slot_numbers d t (opd_bookings s))"
      and eq: "snd (book_opd_slot e p d t s) = s\<lparr>opd_bookings := opd_bookings s @ [?row]\<rparr>"
    have "numbered (opd_bookings s @ [?row]) \<and> capped (opd_slot_templates s) (opd_bookings s @ [?row])"
      using assms tpl room free
      by (intro append_keeps [where d = d and t = t and r = r])
         (simp_all add: ledger_inv_def new_booking_def)
    with assms eq show ?thesis by (simp add: ledger_inv_def)
  qed
qed

lemma book_clinic_slot_inv:
  assumes "ledger_inv s"
  shows "ledger_inv (snd (book_clinic_slot e p c d t s))"
proof -
  let ?c = "booked_count d t (clinic_bookings s)"
  let ?row = "new_booking e p (Some c) d t (Suc ?c)"
  from book_clinic_slot_effect [of e p c d t s] show ?thesis
  proof (elim disjE exE conjE)
    assume "snd (book_clinic_slot e p c d t s) = s"
    with assms show ?thesis by simp
  next
    fix r
    assume tpl: "map_of (clinic_slot_templates s) t = Some r"
      and room: "?c < max_slots r"
      and free: "Suc ?c \<notin> set (slot_numbers d t (clinic_bookings s))"
      and eq: "snd (book_clinic_slot e p c d t s) = s\<lparr>clinic_bookings := clinic_bookings s @ [?row]\<rparr>"
    have "numbered (clinic_bookings s @ [?row])
          \<and> capped (clinic_slot_templates s) (clinic_bookings s @ [?row])"
      using assms tpl room free
      by (intro append_keeps [where d = d and t = t and r = r])
         (simp_all add: ledger_inv_def new_booking_def)
    with assms eq show ?thesis by (simp add: ledger_inv_def)
  qed
qed

lemma cancel_rows_inv:
  "numbered (cancel_rows ts b p r tbl) = numbered tbl"
  "capped tpls (cancel_rows ts b p r tbl) = capped tpls tbl"
  unfolding cancel_rows_def
  by (rule numbered_map, simp) (rule capped_map, simp)

lemma status_rows_inv:
  "numbered (status_rows ts b st a tbl) = numbered tbl"
  "capped tpls (status_rows ts b st a tbl) = capped tpls tbl"
  unfolding status_rows_def
  by (rule numbered_map, simp) (rule capped_map, simp)

lemma updateBookingStatus_inv:
  "ledger_inv s \<Longrightarrow> ledger_inv (snd (updateBookingStatus e ty b st a s))"
  by (auto simp: updateBookingStatus_def Let_def ledger_inv_def status_rows_inv
      split: option.splits)

lemma exec_inv: "ledger_inv s \<Longrightarrow> ledger_inv (exec x s)"
proof (cases x)
  case (BookOPD e p d t)
  assume "ledger_inv s"
  then show ?thesis
    using bookOPDSlot_snd [of e p d t s] book_opd_slot_inv [of s e p d t] BookOPD by auto
next
  case (BookClinic e p c d t)
  assume "ledger_inv s"
  then show ?thesis
    using bookClinicSlot_snd [of e p c d t s] book_clinic_slot_inv [of s e p c d t] BookClinic
    by auto
next
  case (CancelOPD e b p r)
  assume "ledger_inv s"
  then show ?thesis
    using CancelOPD
    by (auto simp: cancelOPDBooking_def ledger_inv_def cancel_rows_inv split: option.splits)
next
  case (CancelClinic e b p r)
  assume "ledger_inv s"
  then show ?thesis
    using CancelClinic
    by (auto simp: cancelClinicBooking_def ledger_inv_def cancel_rows_inv split: option.splits)
next
  case (UpdateStatus e ty b st a)
  assume "ledger_inv s"
  then show ?thesis
    using UpdateStatus updateBookingStatus_inv by simp
qed

lemma run_inv: "ledger_inv s \<Longrightarrow> ledger_inv (run xs s)"
  by (induction xs arbitrary: s) (simp_all add: exec_inv)

lemma exec_templates:
  "opd_slot_templates (exec x s) = opd_slot_templates s"
  "clinic_slot_templates (exec x s) = clinic_slot_templates s"
proof -
  have "opd_slot_templates (exec x s) = opd_slot_templates s
        \<and> clinic_slot_templates (exec x s) = clinic_slot_templates s"
  proof (cases x)
    case (BookOPD e p d t)
    then show ?thesis
      using bookOPDSlot_snd [of e p d t s] book_opd_slot_effect [of e p d t s] by auto
  next
    case (BookClinic e p c d t)
    then show ?thesis
      using bookClinicSlot_snd [of e p c d t s] book_clinic_slot_effect [of e p c d t s] by auto
  next
    case (CancelOPD e b p r)
    then show ?thesis by (simp add: cancelOPDBooking_def split: option.splits)
  next
    case (CancelClinic e b p r)
    then show ?thesis by (simp add: cancelClinicBooking_def split: option.splits)
  next
    case (UpdateStatus e ty b st a)
    then show ?thesis by (simp add: updateBookingStatus_def Let_def split: option.splits)
  qed
  then show "opd_slot_templates (exec x s) = opd_slot_templates s"
    "clinic_slot_templates (exec x s) = clinic_slot_templates s" by simp_all
qed

lemma run_templates:
  "opd_slot_templates (run xs s) = opd_slot_templates s"
  "clinic_slot_templates (run xs s) = clinic_slot_templates s"
  by (induction xs arbitrary: s) (simp_all add: exec_templates)

lemma empty_ledger_inv:
  "opd_bookings s = [] \<Longrightarrow> clinic_bookings s = [] \<Longrightarrow> ledger_inv s"
  by (simp add: ledger_inv_def numbered_def capped_def slot_numbers_def slot_rows_def)

lemma cancel_history: "run [BookOPD (call 1000 101) 1 20522 10, BookOPD (call 2000 102) 2 20522 10,
           CancelOPD (call 3000 0) 101 1 None] hospital = first_cancelled"
  by (simp add: first_cancelled_def two_booked_def)

section \<open>Slot numbers of a (date, template)\<close>

text \<open>
  C2, as the specification states it, fails: after patients 1 and 2 booked the time box and
  patient 1 cancelled, the only non-cancelled booking holds slot 2, not slot 1.
\<close>

theorem contiguous_live_slots_counterexample:
  "\<not> spec_contiguous 20522 10
       (opd_bookings (run [BookOPD (call 1000 101) 1 20522 10, BookOPD (call 2000 102) 2 20522 10,
           CancelOPD (call 3000 0) 101 1 None] hospital))"
  unfolding cancel_history
  by (simp add: spec_contiguous_def first_cancelled_eval slot_rows_def new_booking_def)

text \<open>
  C2, amended. In every state that a history of allocations, cancellations and status updates
  reaches from an empty ledger, the slot numbers of all bookings of a (date, template),
  cancelled ones included, are exactly 1 to M without duplicates, M being the number of those
  bookings. A cancellation keeps the number of its row, so the non-cancelled bookings hold
  distinct numbers that may have gaps.
\<close>

theorem slot_numbers_of_all_rows:
  assumes "opd_bookings s0 = []" and "clinic_bookings s0 = []"
  shows "distinct (slot_numbers d t (opd_bookings (run ops s0)))
       \<and> set (slot_numbers d t (opd_bookings (run ops s0)))
           = {1..length (slot_rows d t (opd_bookings (run ops s0)))}
       \<and> distinct (slot_numbers d t (clinic_bookings (run ops s0)))
       \<and> set (slot_numbers d t (clinic_bookings (run ops s0)))
           = {1..length (slot_rows d t (clinic_bookings (run ops s0)))}"
proof -
  have "ledger_inv (run ops s0)"
    using assms by (intro run_inv empty_ledger_inv)
  then have o: "slot_numbers d t (opd_bookings (run ops s0))
                = [1..<Suc (length (slot_rows d t (opd_bookings (run ops s0))))]"
    and c: "slot_numbers d t (clinic_bookings (run ops s0))
                = [1..<Suc (length (slot_rows d t (clinic_bookings (run ops s0))))]"
    by (simp_all add: ledger_inv_def numbered_def)
  have "distinct [1..<Suc n] \<and> set [1..<Suc n] = {1..n}" for n :: nat
    by auto
  then show ?thesis
    unfolding o c by blast
qed

text \<open>Witness: the history above, where slots 1 (cancelled) and 2 are held.\<close>

theorem slot_numbers_of_all_rows_witness:
  "opd_bookings hospital = [] \<and> clinic_bookings hospital = []
   \<and> slot_numbers 20522 10 (opd_bookings (run [BookOPD (call 1000 101) 1 20522 10,
          BookOPD (call 2000 102) 2 20522 10, CancelOPD (call 3000 0) 101 1 None] hospital)) = [1, 2]
   \<and> set (slot_numbers 20522 10 (opd_bookings (run [BookOPD (call 1000 101) 1 20522 10,
          BookOPD (call 2000 102) 2 20522 10, CancelOPD (call 3000 0) 101 1 None] hospital))) = {1..2}"
proof -
  have a: "opd_bookings hospital = []" and b: "clinic_bookings hospital = []"
    by (simp_all add: hospital_def)
  have n: "slot_numbers 20522 10 (opd_bookings first_cancelled) = [1, 2]"
    by (simp add: slot_numbers_def slot_rows_def first_cancelled_eval new_booking_def)
  have l: "length (slot_rows 20522 10 (opd_bookings first_cancelled)) = 2"
    by (simp add: slot_rows_def first_cancelled_eval new_booking_def)
  show ?thesis
    using a b n l slot_numbers_of_all_rows [OF a b, of 20522 10
      "[BookOPD (call 1000 101) 1 20522 10, BookOPD (call 2000 102) 2 20522 10,
        CancelOPD (call 3000 0) 101 1 None]"]
    unfolding cancel_history by simp
qed

section \<open>Capacity\<close>

lemma full_slot_refused:
  assumes "infra e = None" and "map_of (opd_slot_templates s) t = Some r"
    and "max_slots r \<le> booked_count d t (opd_bookings s)"
  shows "bookOPDSlot e p d t s = (\<lparr>error = Some ''Slot is fully booked'', data = None\<rparr>, s)"
  using assms by (simp add: bookOPDSlot_def book_opd_slot_def)

lemma full_clinic_slot_refused:
  assumes "infra e = None" and "map_of (clinic_slot_templates s) t = Some r"
    and "max_slots r \<le> booked_count d t (clinic_bookings s)"
  shows "bookClinicSlot e p c d t s = (\<lparr>error = Some ''Slot is fully booked'', data = None\<rparr>, s)"
  using assms by (simp add: bookClinicSlot_def book_clinic_slot_def)

text \<open>
  C3. The calls that write the ledger (allocation, patient cancellation, status update) leave
  the templates as they are. In every state that a history of such calls reaches from an empty
  ledger, the number of non-terminal bookings of a (date, template) is at most the template's
  capacity, in both categories (0 for a template that does not exist: it has no bookings); and
  an allocation attempted on an existing template whose count has reached the capacity is
  answered "Slot is fully booked" and writes nothing.
\<close>

theorem capacity_bound:
  assumes "opd_bookings s0 = []" and "clinic_bookings s0 = []" and "s = run ops s0"
  shows "opd_slot_templates s = opd_slot_templates s0
       \<and> clinic_slot_templates s = clinic_slot_templates s0
       \<and> booked_count d t (opd_bookings s) \<le> capacity (opd_slot_templates s) t
       \<and> booked_count d t (clinic_bookings s) \<le> capacity (clinic_slot_templates s) t
       \<and> (infra e = None \<and> map_of (opd_slot_templates s) t \<noteq> None
            \<and> capacity (opd_slot_templates s) t \<le> booked_count d t (opd_bookings s)
          \<longrightarrow> bookOPDSlot e p d t s = (\<lparr>error = Some ''Slot is fully booked'', data = None\<rparr>, s))
       \<and> (infra e = None \<and> map_of (clinic_slot_templates s) t \<noteq> None
            \<and> capacity (clinic_slot_templates s) t \<le> booked_count d t (clinic_bookings s)
          \<longrightarrow> bookClinicSlot e p c d t s = (\<lparr>error = Some ''Slot is fully booked'', data = None\<rparr>, s))"
proof -
  have inv: "ledger_inv s"
    using assms by (simp add: run_inv empty_ledger_inv)
  have tp: "opd_slot_templates s = opd_slot_templates s0"
    "clinic_slot_templates s = clinic_slot_templates s0"
    using assms by (simp_all add: run_templates)
  have "booked_count d t (opd_bookings s) \<le> length (slot_rows d t (opd_bookings s))"
    by (rule booked_count_le)
  also have "\<dots> \<le> capacity (opd_slot_templates s0) t"
    using inv tp by (simp add: ledger_inv_def capped_def)
  finally have 1: "booked_count d t (opd_bookings s) \<le> capacity (opd_slot_templates s0) t" .
  have "booked_count d t (clinic_bookings s) \<le> length (slot_rows d t (clinic_bookings s))"
    by (rule booked_count_le)
  also have "\<dots> \<le> capacity (clinic_slot_templates s0) t"
    using inv tp by (simp add: ledger_inv_def capped_def)
  finally have 2: "booked_count d t (clinic_bookings s) \<le> capacity (clinic_slot_templates s0) t" .
  have 3: "bookOPDSlot e p d t s = (\<lparr>error = Some ''Slot is fully booked'', data = None\<rparr>, s)"
    if "infra e = None" "map_of (opd_slot_templates s) t \<noteq> None"
      "capacity (opd_slot_templates s) t \<le> booked_count d t (opd_bookings s)"
    using that by (auto simp: capacity_def intro: full_slot_refused)
  have 4: "bookClinicSlot e p c d t s = (\<lparr>error = Some ''Slot is fully booked'', data = None\<rparr>, s)"
    if "infra e = None" "map_of (clinic_slot_templates s) t \<noteq> None"
      "capacity (clinic_slot_templates s) t \<le> booked_count d t (clinic_bookings s)"
    using that by (auto simp: capacity_def intro: full_clinic_slot_refused)
  from 1 2 have "booked_count d t (opd_bookings s) \<le> capacity (opd_slot_templates s) t"
    and "booked_count d t (clinic_bookings s) \<le> capacity (clinic_slot_templates s) t"
    by (simp_all add: tp)
  with tp 3 4 show ?thesis by blast
qed

text \<open>Witness: the time box of capacity 2 after two bookings; patient 3 is turned away.\<close>

theorem capacity_bound_witness:
  "opd_bookings hospital = [] \<and> clinic_bookings hospital = []
   \<and> two_booked = run [BookOPD (call 1000 101) 1 20522 10, BookOPD (call 2000 102) 2 20522 10] hospital
   \<and> infra (call 2500 103) = None
   \<and> map_of (opd_slot_templates two_booked) 10 \<noteq> None
   \<and> capacity (opd_slot_templates two_booked) 10 = 2
   \<and> booked_count 20522 10 (opd_bookings two_booked) = 2
   \<and> bookOPDSlot (call 2500 103) 3 20522 10 two_booked
       = (\<lparr>error = Some ''Slot is fully booked'', data = None\<rparr>, two_booked)"
proof -
  have a: "opd_bookings hospital = []" and b: "clinic_bookings hospital = []"
    by (simp_all add: hospital_def)
  have r: "two_booked = run [BookOPD (call 1000 101) 1 20522 10, BookOPD (call 2000 102) 2 20522 10] hospital"
    by (simp add: two_booked_def)
  have e: "infra (call 2500 103) = None" by (simp add: call_def)
  have t: "map_of (opd_slot_templates two_booked) 10 \<noteq> None"
    and k: "capacity (opd_slot_templates two_booked) 10 = 2"
    by (simp_all add: two_booked_eval capacity_def tuesday_box_def)
  have n: "booked_count 20522 10 (opd_bookings two_booked) = 2"
    by (simp add: two_booked_eval booked_count_def slot_rows_def new_booking_def non_terminal_def)
  show ?thesis
    using a b r e t k n capacity_bound [OF a b r, of 20522 10 "call 2500 103" 3]
    by simp
qed

section \<open>The checks of an allocation\<close>

lemma rejection_of_message: "rejection_of (message err) = None"
  by (cases err) (simp_all add: rejection_of_def)

lemma bookOPDSlot_cases:
  assumes "infra e = None"
  shows "bookOPDSlot e p d t s =
     (case map_of (opd_slot_templates s) t of
        None \<Rightarrow> (\<lparr>error = Some ''Template not found'', data = None\<rparr>, s)
      | Some r \<Rightarrow>
          if max_slots r \<le> booked_count d t (opd_bookings s) then
            (\<lparr>error = Some ''Slot is fully booked'', data = None\<rparr>, s)
          else if patient_booked p d (opd_bookings s) then
            (\<lparr>error = Some ''You already have an OPD booking on this date'', data = None\<rparr>, s)
          else if patient_booked p d (clinic_bookings s) then
            (\<lparr>error = Some ''You already have a clinic booking on this date'', data = None\<rparr>, s)
          else
            (case insert_booking ''opd_bookings'' s
                    (new_booking e p None d t (booked_count d t (opd_bookings s) + 1))
                    (opd_bookings s) of
               Inl err \<Rightarrow> (\<lparr>error = Some (message err), data = None\<rparr>, s)
             | Inr tbl \<Rightarrow>
                 (\<lparr>error = None,
                   data = Some (Booked (fresh_uuid e) (booked_count d t (opd_bookings s) + 1))\<rparr>,
                  s\<lparr>opd_bookings := tbl\<rparr>)))"
  using assms
  by (simp add: bookOPDSlot_def book_opd_slot_def Let_def split: option.splits sum.splits)

lemma bookClinicSlot_cases:
  assumes "infra e = None"
  shows "bookClinicSlot e p c d t s =
     (case map_of (clinic_slot_templates s) t of
        None \<Rightarrow> (\<lparr>error = Some ''Template not found'', data = None\<rparr>, s)
      | Some r \<Rightarrow>
          if max_slots r \<le> booked_count d t (clinic_bookings s) then
            (\<lparr>error = Some ''Slot is fully booked'', data = None\<rparr>, s)
          else if patient_booked p d (opd_bookings s) then
            (\<lparr>error = Some ''You already have an OPD booking on this date'', data = None\<rparr>, s)
          else if patient_booked p d (clinic_bookings s) then
            (\<lparr>error = Some ''You already have a clinic booking on this date'', data = None\<rparr>, s)
          else
            (case insert_booking ''clinic_bookings'' s
                    (new_booking e p (Some c) d t (booked_count d t (clinic_bookings s) + 1))
                    (clinic_bookings s) of
               Inl err \<Rightarrow> (\<lparr>error = Some (message err), data = None\<rparr>, s)
             | Inr tbl \<Rightarrow>
                 (\<lparr>error = None,
                   data = Some (Booked (fresh_uuid e) (booked_count d t (clinic_bookings s) + 1))\<rparr>,
                  s\<lparr>clinic_bookings := tbl\<rparr>)))"
  using assms
  by (simp add: bookClinicSlot_def book_clinic_slot_def Let_def split: option.splits sum.splits)

text \<open>
  C4, as the specification states it, fails on the outcome: patient 1 holds a booking on
  2026-03-10, and a second request is answered "Slot is fully booked" when the time box is
  full and "Template not found" when the template does not exist, since these checks come
  before the patient's.
\<close>

theorem booked_patient_other_rejection_counterexample:
  "patient_booked 1 20522 (opd_bookings two_booked)
   \<and> refusal (fst (bookOPDSlot (call 2500 103) 1 20522 10 two_booked)) = Some SlotFull
   \<and> refusal (fst (bookClinicSlot (call 2500 103) 1 70 20522 99 two_booked)) = Some TemplateNotFound"
  by (simp add: bookOPDSlot_def book_opd_slot_def bookClinicSlot_def book_clinic_slot_def
      two_booked_def hospital_def booked_count_def slot_rows_def patient_booked_def
      insert_booking_def new_booking_def call_def tuesday_box_def non_terminal_def
      refusal_def rejection_of_def)

text \<open>
  C4, amended. A patient who holds a non-cancelled, non-no-show booking of either category on
  a date is refused every further allocation of either category on that date, and no row is
  created; the rejection is PatientAlreadyBooked whenever the requested template exists and
  is not full, and TemplateNotFound or SlotFull otherwise.
\<close>

theorem booked_patient_is_refused:
  assumes "infra e = None"
    and "patient_booked p d (opd_bookings s) \<or> patient_booked p d (clinic_bookings s)"
  shows "snd (bookOPDSlot e p d t s) = s \<and> data (fst (bookOPDSlot e p d t s)) = None
       \<and> refusal (fst (bookOPDSlot e p d t s)) =
           (if map_of (opd_slot_templates s) t = None then Some TemplateNotFound
            else if capacity (opd_slot_templates s) t \<le> booked_count d t (opd_bookings s)
            then Some SlotFull else Some PatientAlreadyBooked)
       \<and> snd (bookClinicSlot e p c d t s) = s \<and> data (fst (bookClinicSlot e p c d t s)) = None
       \<and> refusal (fst (bookClinicSlot e p c d t s)) =
           (if map_of (clinic_slot_templates s) t = None then Some TemplateNotFound
            else if capacity (clinic_slot_templates s) t \<le> booked_count d t (clinic_bookings s)
            then Some SlotFull else Some PatientAlreadyBooked)"
proof -
  have o: "snd (bookOPDSlot e p d t s) = s \<and> data (fst (bookOPDSlot e p d t s)) = None
       \<and> refusal (fst (bookOPDSlot e p d t s)) =
           (if map_of (opd_slot_templates s) t = None then Some TemplateNotFound
            else if capacity (opd_slot_templates s) t \<le> booked_count d t (opd_bookings s)
            then Some SlotFull else Some PatientAlreadyBooked)"
    using assms(2) unfolding bookOPDSlot_cases [OF assms(1)]
    by (auto simp: refusal_def rejection_of_def capacity_def split: option.splits)
  have c: "snd (bookClinicSlot e p c d t s) = s \<and> data (fst (bookClinicSlot e p c d t s)) = None
       \<and> refusal (fst (bookClinicSlot e p c d t s)) =
           (if map_of (clinic_slot_templates s) t = None then Some TemplateNotFound
            else if capacity (clinic_slot_templates s) t \<le> booked_count d t (clinic_bookings s)
            then Some SlotFull else Some PatientAlreadyBooked)"
    using assms(2) unfolding bookClinicSlot_cases [OF assms(1)]
    by (auto simp: refusal_def rejection_of_def capacity_def split: option.splits)
  from o c show ?thesis by simp
qed

text \<open>
  Witness, across the categories: patient 1 holds a general booking and asks for the clinic
  time box; patient 3 holds a clinic booking and asks for the general time box.
\<close>

lemma clinic_booked_eval:
  "opd_bookings clinic_booked = []"
  "clinic_bookings clinic_booked = [new_booking (call 1000 201) 3 (Some 70) 20522 20 1]"
  "opd_slot_templates clinic_booked = [(10, tuesday_box)]"
  by (simp_all add: clinic_booked_def hospital_def bookClinicSlot_def book_clinic_slot_def
      booked_count_def slot_rows_def patient_booked_def insert_booking_def new_booking_def
      call_def tuesday_box_def non_terminal_def)

theorem booked_patient_is_refused_witness:
  "infra (call 2500 103) = None
   \<and> patient_booked 1 20522 (opd_bookings two_booked)
   \<and> bookClinicSlot (call 2500 103) 1 70 20522 20 two_booked
       = (\<lparr>error = Some ''You already have an OPD booking on this date'', data = None\<rparr>, two_booked)
   \<and> refusal (fst (bookClinicSlot (call 2500 103) 1 70 20522 20 two_booked)) = Some PatientAlreadyBooked
   \<and> patient_booked 3 20522 (clinic_bookings clinic_booked)
   \<and> bookOPDSlot (call 2500 103) 3 20522 10 clinic_booked
       = (\<lparr>error = Some ''You already have a clinic booking on this date'', data = None\<rparr>, clinic_booked)
   \<and> refusal (fst (bookOPDSlot (call 2500 103) 3 20522 10 clinic_booked)) = Some PatientAlreadyBooked"
proof -
  have e: "infra (call 2500 103) = None" by (simp add: call_def)
  have h1: "patient_booked 1 20522 (opd_bookings two_booked)"
    by (simp add: two_booked_eval patient_booked_def new_booking_def non_terminal_def)
  have h3: "patient_booked 3 20522 (clinic_bookings clinic_booked)"
    by (simp add: clinic_booked_eval patient_booked_def new_booking_def non_terminal_def)
  have m1: "error (fst (bookClinicSlot (call 2500 103) 1 70 20522 20 two_booked))
            = Some ''You already have an OPD booking on this date''"
    using h1 unfolding bookClinicSlot_cases [OF e]
    by (simp add: two_booked_def hospital_def tuesday_box_def booked_count_def slot_rows_def
        bookOPDSlot_def book_opd_slot_def call_def insert_booking_def new_booking_def
        patient_booked_def non_terminal_def)
  have m3: "error (fst (bookOPDSlot (call 2500 103) 3 20522 10 clinic_booked))
            = Some ''You already have a clinic booking on this date''"
    using h3 unfolding bookOPDSlot_cases [OF e]
    by (simp add: clinic_booked_eval tuesday_box_def booked_count_def slot_rows_def
        patient_booked_def)
  show ?thesis
    using e h1 h3 m1 m3
      booked_patient_is_refused [OF e disjI1, OF h1, where t = 20 and c = 70]
      booked_patient_is_refused [OF e disjI2, OF h3, where t = 10 and c = 70]
    by (simp add: prod_eq_iff refusal_def rejection_of_def)
qed

lemma map_of_retagged:
  "map_of (map (\<lambda>(k, r). (k, f k r)) xs) t = map_option (f t) (map_of xs t)"
  by (induction xs) auto

lemma recalendared_fields:
  "opd_bookings (recalendared bd act dow s) = opd_bookings s"
  "clinic_bookings (recalendared bd act dow s) = clinic_bookings s"
  "map_of (opd_slot_templates (recalendared bd act dow s)) t
     = map_option (\<lambda>r. r\<lparr>is_active := act t, day_of_week := dow t\<rparr>) (map_of (opd_slot_templates s) t)"
  "map_of (clinic_slot_templates (recalendared bd act dow s)) t
     = map_option (\<lambda>r. r\<lparr>is_active := act t, day_of_week := dow t\<rparr>) (map_of (clinic_slot_templates s) t)"
  "insert_booking tn (recalendared bd act dow s) row tbl = insert_booking tn s row tbl"
  by (simp_all add: recalendared_def map_of_retagged insert_booking_def split: option.splits)

lemma insert_booking_clock:
  "insert_booking tn s (new_booking (e\<lparr>now := n\<rparr>) p c d t k) tbl =
     (case insert_booking tn s (new_booking e p c d t k) tbl of
        Inl err \<Rightarrow> Inl err
      | Inr tbl' \<Rightarrow> Inr (tbl @ [new_booking (e\<lparr>now := n\<rparr>) p c d t k]))"
  by (simp add: insert_booking_def new_booking_def)

lemma refusal_simps:
  "refusal \<lparr>error = Some (message err), data = x\<rparr> = None"
  "refusal \<lparr>error = None, data = x\<rparr> = None"
  "refusal \<lparr>error = Some ''Template not found'', data = x\<rparr> = Some TemplateNotFound"
  "refusal \<lparr>error = Some ''Slot is fully booked'', data = x\<rparr> = Some SlotFull"
  "refusal \<lparr>error = Some ''You already have an OPD booking on this date'', data = x\<rparr>
     = Some PatientAlreadyBooked"
  "refusal \<lparr>error = Some ''You already have a clinic booking on this date'', data = x\<rparr>
     = Some PatientAlreadyBooked"
  by (simp_all add: refusal_def rejection_of_message) (simp_all add: rejection_of_def)

text \<open>
  C5, as the specification states it, fails: on a blocked date, which lies in the past at the
  time of the call, for a deactivated template of another weekday, the allocation succeeds
  with slot 1 and the booking is created.
\<close>

theorem date_policy_counterexample:
  "20522 \<in> set (blocked_dates closed_day)
   \<and> map_of (opd_slot_templates closed_day) 10
       = Some (tuesday_box\<lparr>is_active := False, day_of_week := 5\<rparr>)
   \<and> EXTRACT_DOW 20522 = 2
   \<and> Date_UTC 20522 9 0 < now (call 1779840000000 101)
   \<and> bookOPDSlot (call 1779840000000 101) 1 20522 10 closed_day
       = (\<lparr>error = None, data = Some (Booked 101 1)\<rparr>,
          closed_day\<lparr>opd_bookings := [new_booking (call 1779840000000 101) 1 None 20522 10 1]\<rparr>)"
  by (simp add: closed_day_def recalendared_def hospital_def tuesday_box_def EXTRACT_DOW_def
      Date_UTC_def call_def bookOPDSlot_def book_opd_slot_def booked_count_def slot_rows_def
      patient_booked_def insert_booking_def new_booking_def)

text \<open>
  C5, amended. With the storage reachable, an allocation checks in this order: the template
  exists (active or not), else TemplateNotFound; the count of non-terminal bookings is below
  the capacity, else SlotFull; the patient holds no non-terminal booking of either category on
  the date, else PatientAlreadyBooked. The first failing check decides and a rejection creates
  no booking. The date is not examined: the answer is the same whatever the blocked dates, the
  clock, and the active flags and weekdays of the templates, and no answer is DateNotBookable.
\<close>

theorem allocation_check_order:
  assumes "infra e = None"
  shows "refusal (fst (bookOPDSlot e p d t s)) =
           (case map_of (opd_slot_templates s) t of
              None \<Rightarrow> Some TemplateNotFound
            | Some r \<Rightarrow>
                if max_slots r \<le> booked_count d t (opd_bookings s) then Some SlotFull
                else if patient_booked p d (opd_bookings s) \<or> patient_booked p d (clinic_bookings s)
                then Some PatientAlreadyBooked else None)
       \<and> (refusal (fst (bookOPDSlot e p d t s)) \<noteq> None \<longrightarrow> snd (bookOPDSlot e p d t s) = s)
       \<and> fst (bookOPDSlot (e\<lparr>now := n\<rparr>) p d t (recalendared bd act dow s))
           = fst (bookOPDSlot e p d t s)
       \<and> refusal (fst (bookClinicSlot e p c d t s)) =
           (case map_of (clinic_slot_templates s) t of
              None \<Rightarrow> Some TemplateNotFound
            | Some r \<Rightarrow>
                if max_slots r \<le> booked_count d t (clinic_bookings s) then Some SlotFull
                else if patient_booked p d (opd_bookings s) \<or> patient_booked p d (clinic_bookings s)
                then Some PatientAlreadyBooked else None)
       \<and> (refusal (fst (bookClinicSlot e p c d t s)) \<noteq> None \<longrightarrow> snd (bookClinicSlot e p c d t s) = s)
       \<and> fst (bookClinicSlot (e\<lparr>now := n\<rparr>) p c d t (recalendared bd act dow s))
           = fst (bookClinicSlot e p c d t s)"
proof -
  have e': "infra (e\<lparr>now := n\<rparr>) = None" using assms by simp
  have o1: "refusal (fst (bookOPDSlot e p d t s)) =
           (case map_of (opd_slot_templates s) t of
              None \<Rightarrow> Some TemplateNotFound
            | Some r \<Rightarrow>
                if max_slots r \<le> booked_count d t (opd_bookings s) then Some SlotFull
                else if patient_booked p d (opd_bookings s) \<or> patient_booked p d (clinic_bookings s)
                then Some PatientAlreadyBooked else None)"
    unfolding bookOPDSlot_cases [OF assms]
    by (simp add: refusal_simps split: option.splits sum.splits)
  have o2: "refusal (fst (bookOPDSlot e p d t s)) \<noteq> None \<longrightarrow> snd (bookOPDSlot e p d t s) = s"
    unfolding bookOPDSlot_cases [OF assms]
    by (simp add: refusal_simps split: option.splits sum.splits)
  have o3: "fst (bookOPDSlot (e\<lparr>now := n\<rparr>) p d t (recalendared bd act dow s))
           = fst (bookOPDSlot e p d t s)"
    unfolding bookOPDSlot_cases [OF assms] bookOPDSlot_cases [OF e']
    by (simp add: recalendared_fields insert_booking_clock split: option.splits sum.splits)
  have c1: "refusal (fst (bookClinicSlot e p c d t s)) =
           (case map_of (clinic_slot_templates s) t of
              None \<Rightarrow> Some TemplateNotFound
            | Some r \<Rightarrow>
                if max_slots r \<le> booked_count d t (clinic_bookings s) then Some SlotFull
                else if patient_booked p d (opd_bookings s) \<or> patient_booked p d (clinic_bookings s)
                then Some PatientAlreadyBooked else None)"
    unfolding bookClinicSlot_cases [OF assms]
    by (simp add: refusal_simps split: option.splits sum.splits)
  have c2: "refusal (fst (bookClinicSlot e p c d t s)) \<noteq> None \<longrightarrow> snd (bookClinicSlot e p c d t s) = s"
    unfolding bookClinicSlot_cases [OF assms]
    by (simp add: refusal_simps split: option.splits sum.splits)
  have c3: "fst (bookClinicSlot (e\<lparr>now := n\<rparr>) p c d t (recalendared bd act dow s))
           = fst (bookClinicSlot e p c d t s)"
    unfolding bookClinicSlot_cases [OF assms] bookClinicSlot_cases [OF e']
    by (simp add: recalendared_fields insert_booking_clock split: option.splits sum.splits)
  from o1 o2 o3 c1 c2 c3 show ?thesis by blast
qed

text \<open>
  Witness: the full time box refuses patient 3 with SlotFull, leaves the database as it was
  and answers the same under another calendar; an unknown template gives TemplateNotFound; a
  patient who is already booked gives PatientAlreadyBooked.
\<close>

theorem allocation_check_order_witness:
  "infra (call 2500 103) = None
   \<and> refusal (fst (bookOPDSlot (call 2500 103) 3 20522 10 two_booked)) = Some SlotFull
   \<and> refusal (fst (bookOPDSlot (call 2500 103) 3 20522 10 two_booked)) \<noteq> None
   \<and> snd (bookOPDSlot (call 2500 103) 3 20522 10 two_booked) = two_booked
   \<and> fst (bookOPDSlot ((call 2500 103)\<lparr>now := 1779840000000\<rparr>) 3 20522 10
            (recalendared [20522] (\<lambda>_. False) (\<lambda>_. 5) two_booked))
       = fst (bookOPDSlot (call 2500 103) 3 20522 10 two_booked)
   \<and> refusal (fst (bookOPDSlot (call 2500 103) 3 20522 11 two_booked)) = Some TemplateNotFound
   \<and> refusal (fst (bookClinicSlot (call 2500 103) 1 70 20522 20 two_booked)) = Some PatientAlreadyBooked"
proof -
  have e: "infra (call 2500 103) = None" by (simp add: call_def)
  have f: "max_slots tuesday_box \<le> booked_count 20522 10 (opd_bookings two_booked)"
    "booked_count 20522 20 [] = 0" "max_slots tuesday_box = 2"
    "patient_booked 1 20522 (opd_bookings two_booked)"
    "clinic_slot_templates two_booked = [(20, tuesday_box\<lparr>tpl_clinic_id := Some 70\<rparr>)]"
    by (simp_all add: two_booked_def hospital_def bookOPDSlot_def book_opd_slot_def
      booked_count_def slot_rows_def patient_booked_def insert_booking_def new_booking_def
      call_def tuesday_box_def non_terminal_def)
  show ?thesis
    using e f
      allocation_check_order [OF e, of 3 20522 10 two_booked 1779840000000 "[20522]"
        "\<lambda>_. False" "\<lambda>_. 5" 70]
      allocation_check_order [OF e, of 3 20522 11 two_booked 0 "[]" "\<lambda>_. False" "\<lambda>_. 5" 70]
      allocation_check_order [OF e, of 1 20522 20 two_booked 0 "[]" "\<lambda>_. False" "\<lambda>_. 5" 70]
    by (simp add: two_booked_eval)
qed

section \<open>Allocation after a cancellation\<close>

text \<open>
  What a successful allocation is given: the count of non-terminal bookings plus one, a number
  no row of the (date, template) holds. In a ledger grown from an empty one that number is the
  number of all rows plus one, above every number in use, and the allocation succeeds only
  when no row of the pair is cancelled or a no-show: beside such a row no allocation succeeds.
\<close>

lemma booked_slot_number:
  assumes "book_opd_slot e p d t s = (Inr (Booked b n), s')"
  shows "n = booked_count d t (opd_bookings s) + 1 \<and> n \<notin> set (slot_numbers d t (opd_bookings s))
       \<and> opd_bookings s' = opd_bookings s @ [new_booking e p None d t n]"
  using assms
  by (auto simp: book_opd_slot_def insert_booking_def Let_def new_booking_def slot_numbers_def
      split: option.splits if_splits)

lemma booked_slot_is_next:
  assumes "ledger_inv s" and "book_opd_slot e p d t s = (Inr (Booked b n), s')"
  shows "n = length (slot_rows d t (opd_bookings s)) + 1
       \<and> booked_count d t (opd_bookings s) = length (slot_rows d t (opd_bookings s))
       \<and> (\<forall>m \<in> set (slot_numbers d t (opd_bookings s)). m < n)"
proof -
  let ?rows = "slot_rows d t (opd_bookings s)"
  from booked_slot_number [OF assms(2)]
  have n: "n = booked_count d t (opd_bookings s) + 1"
    and free: "n \<notin> set (slot_numbers d t (opd_bookings s))" by blast+
  have nums: "slot_numbers d t (opd_bookings s) = [1..<Suc (length ?rows)]"
    using assms(1) by (simp add: ledger_inv_def numbered_def)
  have "booked_count d t (opd_bookings s) \<le> length ?rows" by (rule booked_count_le)
  with n free nums have "booked_count d t (opd_bookings s) = length ?rows" by auto
  with n nums show ?thesis by auto
qed

lemma no_allocation_beside_a_cancelled_row:
  assumes "ledger_inv s"
    and "booked_count d t (opd_bookings s) < length (slot_rows d t (opd_bookings s))"
  shows "book_opd_slot e p d t s \<noteq> (Inr (Booked b n), s')"
  using booked_slot_is_next [OF assms(1), of e p d t b n s'] assms(2) by auto

text \<open>
  C1. The scenario of the specification, on the code: patients 1 and 2 get slots 1 and 2 of a
  time box of capacity 2, patient 3 is told that it is full, the booking with slot 1 is
  cancelled, and patient 4 asks for the same time box. The count of non-terminal bookings is 1,
  below the capacity, so the procedure computes slot number 2, which the row of patient 2
  holds: the insert violates \<^verbatim>\<open>UNIQUE(booking_date, template_id, slot_number)\<close> and no
  booking is made, where the specification has the request succeed with slot 3.
\<close>

theorem allocation_after_cancellation_raises:
  "fst (book_opd_slot (call 1000 101) 1 20522 10 hospital) = Inr (Booked 101 1)
   \<and> fst (book_opd_slot (call 2500 103) 3 20522 10 two_booked) = Inr (Refused ''Slot is fully booked'')
   \<and> slot_numbers 20522 10 (opd_bookings first_cancelled) = [1, 2]
   \<and> map status (opd_bookings first_cancelled) = [Cancelled, Pending]
   \<and> booked_count 20522 10 (opd_bookings first_cancelled) = 1
   \<and> capacity (opd_slot_templates first_cancelled) 10 = 2
   \<and> book_opd_slot (call 4000 104) 4 20522 10 first_cancelled
       = (Inl (Unique_violation ''opd_bookings_booking_date_template_id_slot_number_key''),
          first_cancelled)"
  by (simp add: first_cancelled_eval two_booked_eval hospital_def book_opd_slot_def
      booked_count_def slot_rows_def slot_numbers_def new_booking_def non_terminal_def
      capacity_def tuesday_box_def patient_booked_def insert_booking_def call_def)

text \<open>
  C9. In the same state \<^verbatim>\<open>bookOPDSlot\<close> hands the caller the message of the storage
  error as it is; it is not the "Slot is fully booked" rejection.
\<close>

theorem conflict_leaks_storage_message:
  "bookOPDSlot (call 4000 104) 4 20522 10 first_cancelled
     = (\<lparr>error = Some (''duplicate key value violates unique constraint ''
            @ quoted ''opd_bookings_booking_date_template_id_slot_number_key''), data = None\<rparr>,
        first_cancelled)
   \<and> refusal (fst (bookOPDSlot (call 4000 104) 4 20522 10 first_cancelled)) \<noteq> Some SlotFull"
  by (simp add: bookOPDSlot_def first_cancelled_eval book_opd_slot_def booked_count_def slot_rows_def
      new_booking_def non_terminal_def tuesday_box_def refusal_def rejection_of_def quoted_def
      patient_booked_def insert_booking_def call_def)

section \<open>Patient identifiers within a year and across years\<close>

lemma digit_value_digit: "d < 10 \<Longrightarrow> digit_value (digit d) = d"
proof -
  assume "d < 10"
  then have "d \<in> {0, 1, 2, 3, 4, 5, 6, 7, 8, 9}" by auto
  then show ?thesis
    by (auto simp: digit_value_def digit_def)
qed

lemma nat_of_text_snoc: "nat_of_text (xs @ [c]) = 10 * nat_of_text xs + digit_value c"
  by (simp add: nat_of_text_def)

lemma nat_of_text_of_nat: "nat_of_text (text_of_nat n) = n"
proof (induction n rule: text_of_nat.induct)
  case (1 n)
  show ?case
  proof (cases "n < 10")
    case True
    then show ?thesis
      by (subst text_of_nat.simps) (simp add: nat_of_text_def digit_value_digit)
  next
    case False
    then have "nat_of_text (text_of_nat n) = 10 * nat_of_text (text_of_nat (n div 10)) + n mod 10"
      by (subst text_of_nat.simps) (simp add: nat_of_text_snoc digit_value_digit)
    with False 1 show ?thesis by simp
  qed
qed

lemma length_text_of_nat: "n < 10 ^ k \<Longrightarrow> 0 < k \<Longrightarrow> length (text_of_nat n) \<le> k"
proof (induction n arbitrary: k rule: text_of_nat.induct)
  case (1 n)
  show ?case
  proof (cases "n < 10")
    case True
    then show ?thesis using 1(3) by (subst text_of_nat.simps) simp
  next
    case False
    obtain j where k: "k = Suc j" using 1(3) by (cases k) auto
    have "j \<noteq> 0" using False 1(2) k by (cases j) auto
    moreover have "n div 10 < 10 ^ j" using 1(2) k by (simp add: less_mult_imp_div_less mult.commute)
    ultimately have "length (text_of_nat (n div 10)) \<le> j"
      using 1(1) [OF False, of j] by simp
    then show ?thesis using False k by (subst text_of_nat.simps) simp
  qed
qed

lemma nat_of_text_zeros: "nat_of_text (replicate k (CHR ''0'') @ xs) = nat_of_text xs"
proof -
  have "foldl (\<lambda>acc c. 10 * acc + digit_value c) 0 (replicate k (CHR ''0'')) = 0"
    by (induction k) (simp_all add: digit_value_def)
  then show ?thesis by (simp add: nat_of_text_def)
qed

lemma LPAD_six:
  assumes "k \<le> 999999"
  shows "length (LPAD (text_of_nat k) 6 (CHR ''0'')) = 6"
    and "nat_of_text (LPAD (text_of_nat k) 6 (CHR ''0'')) = k"
proof -
  have "k < 10 ^ 6" using assms by simp
  then have le: "length (text_of_nat k) \<le> 6" by (rule length_text_of_nat) simp
  show "length (LPAD (text_of_nat k) 6 (CHR ''0'')) = 6"
    using le by (simp add: LPAD_def)
  have "LPAD (text_of_nat k) 6 (CHR ''0'')
        = replicate (6 - length (text_of_nat k)) (CHR ''0'') @ text_of_nat k"
    using le by (cases "length (text_of_nat k) = 6") (simp_all add: LPAD_def)
  then show "nat_of_text (LPAD (text_of_nat k) 6 (CHR ''0'')) = k"
    by (simp add: nat_of_text_zeros nat_of_text_of_nat)
qed

lemma generate_ids_from:
  "patient_id_sequence s y = (if b = 0 then None else Some b) \<Longrightarrow>
   fst (generate_ids n y s) = map (patient_id_text y) [Suc b..<Suc (b + n)]
   \<and> snd (generate_ids n y s)
       = (if n = 0 then s else s\<lparr>patient_id_sequence := (patient_id_sequence s)(y \<mapsto> b + n)\<rparr>)"
proof (induction n arbitrary: s b)
  case 0
  then show ?case by simp
next
  case (Suc n)
  let ?s' = "s\<lparr>patient_id_sequence := (patient_id_sequence s)(y \<mapsto> Suc b)\<rparr>"
  have g: "generate_patient_id y s = (patient_id_text y (Suc b), ?s')"
    using Suc.prems by (simp add: generate_patient_id_def patient_id_text_def)
  have "patient_id_sequence ?s' y = (if Suc b = 0 then None else Some (Suc b))" by simp
  from Suc.IH [OF this]
  have ih: "fst (generate_ids n y ?s') = map (patient_id_text y) [Suc (Suc b)..<Suc (Suc b + n)]"
    "snd (generate_ids n y ?s')
       = (if n = 0 then ?s' else ?s'\<lparr>patient_id_sequence := (patient_id_sequence ?s')(y \<mapsto> Suc b + n)\<rparr>)"
    by simp_all
  have "[Suc b..<Suc (b + Suc n)] = Suc b # [Suc (Suc b)..<Suc (Suc b + n)]"
    by (simp add: upt_conv_Cons)
  then show ?case
    using g ih by (simp add: split_beta)
qed

lemma patient_id_text_inj:
  assumes "j \<le> 999999" and "k \<le> 999999" and "patient_id_text y j = patient_id_text y k"
  shows "j = k"
proof -
  from assms(3) have "LPAD (text_of_nat j) 6 (CHR ''0'') = LPAD (text_of_nat k) 6 (CHR ''0'')"
    by (simp add: patient_id_text_def)
  then have "nat_of_text (LPAD (text_of_nat j) 6 (CHR ''0''))
             = nat_of_text (LPAD (text_of_nat k) 6 (CHR ''0''))" by simp
  then show ?thesis using assms(1,2) by (simp add: LPAD_six)
qed

text \<open>
  C6, as the specification states it for every number of calls, fails at one million calls in
  a year: \<^verbatim>\<open>LPAD\<close> cuts the seven digits of 1000000 down to 100000, the suffix the
  call number 100000 already had, so the identifiers are not distinct.
\<close>

theorem patient_ids_repeat_counterexample:
  "\<not> distinct (fst (generate_ids 1000000 2026 hospital))"
proof
  assume d: "distinct (fst (generate_ids 1000000 2026 hospital))"
  have "patient_id_sequence hospital 2026 = (if (0::nat) = 0 then None else Some 0)"
    by (simp add: hospital_def)
  from generate_ids_from [OF this, of 1000000]
  have "fst (generate_ids 1000000 2026 hospital) = map (patient_id_text 2026) [1..<Suc 1000000]"
    by simp
  with d have "inj_on (patient_id_text 2026) (set [1..<Suc 1000000])"
    by (simp only: distinct_map)
  moreover have "patient_id_text 2026 100000 = patient_id_text 2026 1000000"
    by (simp add: patient_id_text_def LPAD_def text_of_nat.simps)
  moreover have "(100000::nat) \<in> set [1..<Suc 1000000]" "(1000000::nat) \<in> set [1..<Suc 1000000]"
    by simp_all
  ultimately have "(100000::nat) = 1000000"
    by (rule inj_onD)
  then show False by simp
qed

text \<open>
  C6, amended. Starting without a row for the year, up to 999999 calls in a row within a year
  return the identifiers AMH, the year, and the call's number padded with zeros to six digits:
  they are distinct, and their suffixes have six digits and denote 1, 2, ... in order. The
  first call in the next year returns the suffix 000001 with the new year.
\<close>

theorem patient_ids_within_a_year:
  assumes "patient_id_sequence s y = None" and "patient_id_sequence s (Suc y) = None"
    and "n \<le> 999999"
  shows "fst (generate_ids n y s) = map (patient_id_text y) [1..<Suc n]
       \<and> distinct (fst (generate_ids n y s))
       \<and> (\<forall>k. 1 \<le> k \<and> k \<le> n \<longrightarrow>
             patient_id_text y k = ''AMH'' @ text_of_nat y @ LPAD (text_of_nat k) 6 (CHR ''0'')
             \<and> length (LPAD (text_of_nat k) 6 (CHR ''0'')) = 6
             \<and> nat_of_text (LPAD (text_of_nat k) 6 (CHR ''0'')) = k)
       \<and> fst (generate_patient_id (Suc y) (snd (generate_ids n y s)))
           = ''AMH'' @ text_of_nat (Suc y) @ ''000001''"
proof -
  have "patient_id_sequence s y = (if (0::nat) = 0 then None else Some 0)"
    using assms(1) by simp
  from generate_ids_from [OF this, of n]
  have ids: "fst (generate_ids n y s) = map (patient_id_text y) [1..<Suc n]"
    and st: "snd (generate_ids n y s)
       = (if n = 0 then s else s\<lparr>patient_id_sequence := (patient_id_sequence s)(y \<mapsto> n)\<rparr>)"
    by simp_all
  have "inj_on (patient_id_text y) (set [1..<Suc n])"
    using assms(3) by (auto simp: inj_on_def intro!: patient_id_text_inj [of _ _ y])
  then have dist: "distinct (fst (generate_ids n y s))"
    unfolding ids by (simp add: distinct_map)
  have form: "\<forall>k. 1 \<le> k \<and> k \<le> n \<longrightarrow>
             patient_id_text y k = ''AMH'' @ text_of_nat y @ LPAD (text_of_nat k) 6 (CHR ''0'')
             \<and> length (LPAD (text_of_nat k) 6 (CHR ''0'')) = 6
             \<and> nat_of_text (LPAD (text_of_nat k) 6 (CHR ''0'')) = k"
    using assms(3) by (auto simp: patient_id_text_def LPAD_six)
  have "patient_id_sequence (snd (generate_ids n y s)) (Suc y) = None"
    using assms(2) st by simp
  moreover have "LPAD (text_of_nat 1) 6 (CHR ''0'') = ''000001''"
    by code_simp
  ultimately have next_year: "fst (generate_patient_id (Suc y) (snd (generate_ids n y s)))
           = ''AMH'' @ text_of_nat (Suc y) @ ''000001''"
    by (simp add: generate_patient_id_def patient_id_text_def)
  from ids dist form next_year show ?thesis by blast
qed

text \<open>Witness: three calls in 2026, then one in 2027; and the specification's example.\<close>

theorem patient_ids_within_a_year_witness:
  "patient_id_sequence hospital 2026 = None \<and> patient_id_sequence hospital (Suc 2026) = None
   \<and> (3::nat) \<le> 999999 \<and> (1::nat) \<le> 2 \<and> (2::nat) \<le> 3
   \<and> fst (generate_ids 3 2026 hospital) = [''AMH2026000001'', ''AMH2026000002'', ''AMH2026000003'']
   \<and> distinct (fst (generate_ids 3 2026 hospital))
   \<and> nat_of_text (LPAD (text_of_nat 2) 6 (CHR ''0'')) = 2
   \<and> fst (generate_patient_id (Suc 2026) (snd (generate_ids 3 2026 hospital))) = ''AMH2027000001''
   \<and> patient_id_text 2026 123 = ''AMH2026000123''"
proof -
  have a: "patient_id_sequence hospital 2026 = None"
    and b: "patient_id_sequence hospital (Suc 2026) = None"
    by (simp_all add: hospital_def)
  have c: "(3::nat) \<le> 999999" and k: "(1::nat) \<le> 2 \<and> (2::nat) \<le> 3" by simp_all
  note th = patient_ids_within_a_year [OF a b c]
  have u: "map (patient_id_text 2026) [1..<Suc 3]
           = [''AMH2026000001'', ''AMH2026000002'', ''AMH2026000003'']"
    by code_simp
  have v: "''AMH'' @ text_of_nat (Suc 2026) @ ''000001'' = ''AMH2027000001''"
    by code_simp
  have w: "patient_id_text 2026 123 = ''AMH2026000123''"
    by code_simp
  from th have 1: "fst (generate_ids 3 2026 hospital)
                   = [''AMH2026000001'', ''AMH2026000002'', ''AMH2026000003'']"
    unfolding u by (rule conjunct1)
  from th have 2: "distinct (fst (generate_ids 3 2026 hospital))" by blast
  from th k have 3: "nat_of_text (LPAD (text_of_nat 2) 6 (CHR ''0'')) = 2" by blast
  from th have 4: "fst (generate_patient_id (Suc 2026) (snd (generate_ids 3 2026 hospital)))
                   = ''AMH2027000001''"
    unfolding v by blast
  from a b c k 1 2 3 4 w show ?thesis by blast
qed

section \<open>Status changes\<close>


lemma status_rows_status:
  "map status (status_rows ts bookingId st adminId tbl) =
     map (\<lambda>b. if booking_id b = bookingId then st else status b) tbl"
  by (simp add: status_rows_def)





lemma cancel_step_refl: "cancel_step b b"
  by (simp add: cancel_step_def)

lemma cancel_step_trans: "cancel_step a b \<Longrightarrow> cancel_step b c \<Longrightarrow> cancel_step a c"
  by (auto simp: cancel_step_def)

lemma cancel_rows_step: "list_all2 cancel_step tbl (cancel_rows ts b p r tbl)"
  by (induction tbl) (simp_all add: cancel_rows_def cancel_step_def)

lemma cancel_exec_step:
  assumes "is_cancel x"
  shows "list_all2 cancel_step (opd_bookings s) (opd_bookings (exec x s))
       \<and> list_all2 cancel_step (clinic_bookings s) (clinic_bookings (exec x s))"
proof (cases x)
  case (CancelOPD e b p r)
  then show ?thesis
    by (cases "infra e")
       (simp_all add: cancelOPDBooking_def cancel_rows_step list_all2_refl cancel_step_refl)
next
  case (CancelClinic e b p r)
  then show ?thesis
    by (cases "infra e")
       (simp_all add: cancelClinicBooking_def cancel_rows_step list_all2_refl cancel_step_refl)
qed (use assms in simp_all)

lemma cancel_run_step:
  "\<forall>x \<in> set ops. is_cancel x \<Longrightarrow>
   list_all2 cancel_step (opd_bookings s) (opd_bookings (run ops s))
   \<and> list_all2 cancel_step (clinic_bookings s) (clinic_bookings (run ops s))"
proof (induction ops arbitrary: s)
  case Nil
  then show ?case by (simp add: list_all2_refl cancel_step_refl)
next
  case (Cons x xs)
  from Cons.prems have x: "is_cancel x" and xs: "\<forall>y \<in> set xs. is_cancel y" by simp_all
  from cancel_exec_step [OF x, of s] Cons.IH [OF xs, of "exec x s"]
  show ?case
    by (auto intro: list_all2_trans [OF cancel_step_trans])
qed

lemma updateBookingStatus_status:
  assumes "infra e = None" and "status_of_text newStatus = Some st"
    and "st = Verified \<longrightarrow> adminId \<in> set (admin_users s)"
  shows "map status (opd_bookings (snd (updateBookingStatus e ''opd'' bookingId newStatus adminId s)))
           = map (\<lambda>b. if booking_id b = bookingId then st else status b) (opd_bookings s)"
    and "bookingType \<noteq> ''opd'' \<Longrightarrow>
         map status (clinic_bookings (snd (updateBookingStatus e bookingType bookingId newStatus adminId s)))
           = map (\<lambda>b. if booking_id b = bookingId then st else status b) (clinic_bookings s)"
proof -
  have same: "map (\<lambda>b. if booking_id b = bookingId then st else status b) tbl = map status tbl"
    if "filter (\<lambda>b. booking_id b = bookingId) tbl = []" for tbl
    using that by (induction tbl) (auto split: if_splits)
  show "map status (opd_bookings (snd (updateBookingStatus e ''opd'' bookingId newStatus adminId s)))
           = map (\<lambda>b. if booking_id b = bookingId then st else status b) (opd_bookings s)"
    using assms by (auto simp: updateBookingStatus_def Let_def status_rows_status same)
  show "map status (clinic_bookings (snd (updateBookingStatus e bookingType bookingId newStatus adminId s)))
           = map (\<lambda>b. if booking_id b = bookingId then st else status b) (clinic_bookings s)"
    if "bookingType \<noteq> ''opd''"
    using assms that by (auto simp: updateBookingStatus_def Let_def status_rows_status same)
qed

text \<open>
  C8, as the specification states it, fails: \<^verbatim>\<open>updateBookingStatus\<close> takes the
  cancelled booking 101 back to pending, and the pending booking 102 straight to completed.
\<close>

theorem terminal_status_reopened_counterexample:
  "map status (opd_bookings first_cancelled) = [Cancelled, Pending]
   \<and> fst (updateBookingStatus (call 6000 0) ''opd'' 101 ''pending'' 90 first_cancelled)
       = \<lparr>error = None\<rparr>
   \<and> map status (opd_bookings
        (snd (updateBookingStatus (call 6000 0) ''opd'' 101 ''pending'' 90 first_cancelled)))
       = [Pending, Pending]
   \<and> fst (updateBookingStatus (call 7000 0) ''opd'' 102 ''completed'' 90 first_cancelled)
       = \<lparr>error = None\<rparr>
   \<and> map status (opd_bookings
        (snd (updateBookingStatus (call 7000 0) ''opd'' 102 ''completed'' 90 first_cancelled)))
       = [Cancelled, Completed]"
  by (simp add: first_cancelled_eval updateBookingStatus_def call_def status_of_text_def
      status_rows_def new_booking_def Let_def)

text \<open>
  C8, amended. Under every sequence of patient cancellations each booking keeps its status or
  goes from pending to cancelled, so every status other than pending, the terminal ones
  included, is final under cancellations. \<^verbatim>\<open>updateBookingStatus\<close> checks no
  transition: given one of the six status values (and an existing administrator when the value
  is verified) it gives that status to the booking with the given id whatever its current
  status.
\<close>

theorem status_changes:
  "((\<forall>x \<in> set ops. is_cancel x) \<longrightarrow>
      list_all2 cancel_step (opd_bookings s) (opd_bookings (run ops s))
      \<and> list_all2 cancel_step (clinic_bookings s) (clinic_bookings (run ops s)))
   \<and> (infra e = None \<and> status_of_text newStatus = Some st
        \<and> (st = Verified \<longrightarrow> adminId \<in> set (admin_users s)) \<longrightarrow>
      map status (opd_bookings (snd (updateBookingStatus e ''opd'' bookingId newStatus adminId s)))
        = map (\<lambda>b. if booking_id b = bookingId then st else status b) (opd_bookings s)
      \<and> (bookingType \<noteq> ''opd'' \<longrightarrow>
           map status (clinic_bookings
             (snd (updateBookingStatus e bookingType bookingId newStatus adminId s)))
           = map (\<lambda>b. if booking_id b = bookingId then st else status b) (clinic_bookings s)))"
  using cancel_run_step [of ops s]
    updateBookingStatus_status(1) [where e = e and newStatus = newStatus and st = st
      and adminId = adminId and s = s and bookingId = bookingId]
    updateBookingStatus_status(2) [where e = e and newStatus = newStatus and st = st
      and adminId = adminId and s = s and bookingId = bookingId and bookingType = bookingType]
  by blast

text \<open>
  Witness: two cancellations on the ledger with a cancelled and a pending booking; and
  administrator 90 setting the cancelled booking to verified.
\<close>

theorem status_changes_witness:
  "is_cancel (CancelOPD (call 4000 0) 101 1 None) \<and> is_cancel (CancelOPD (call 4500 0) 102 2 None)
   \<and> map status (opd_bookings first_cancelled) = [Cancelled, Pending]
   \<and> map status (opd_bookings
        (run [CancelOPD (call 4000 0) 101 1 None, CancelOPD (call 4500 0) 102 2 None] first_cancelled))
       = [Cancelled, Cancelled]
   \<and> list_all2 cancel_step (opd_bookings first_cancelled) (opd_bookings
        (run [CancelOPD (call 4000 0) 101 1 None, CancelOPD (call 4500 0) 102 2 None] first_cancelled))
   \<and> infra (call 6000 0) = None \<and> status_of_text ''verified'' = Some Verified
   \<and> 90 \<in> set (admin_users first_cancelled)
   \<and> map status (opd_bookings
        (snd (updateBookingStatus (call 6000 0) ''opd'' 101 ''verified'' 90 first_cancelled)))
       = [Verified, Pending]
   \<and> ''clinic'' \<noteq> ''opd''
   \<and> map status (clinic_bookings
        (snd (updateBookingStatus (call 6000 0) ''clinic'' 101 ''verified'' 90 first_cancelled)))
       = []"
proof -
  have c: "\<forall>x \<in> set [CancelOPD (call 4000 0) 101 1 None, CancelOPD (call 4500 0) 102 2 None].
             is_cancel x" by simp
  have e: "infra (call 6000 0) = None" and t: "status_of_text ''verified'' = Some Verified"
    by (simp_all add: call_def status_of_text_def)
  have a: "90 \<in> set (admin_users first_cancelled)"
    by (simp add: first_cancelled_eval)
  have r: "map status (opd_bookings
        (run [CancelOPD (call 4000 0) 101 1 None, CancelOPD (call 4500 0) 102 2 None] first_cancelled))
       = [Cancelled, Cancelled]"
    by (simp add: cancelOPDBooking_def call_def cancel_rows_def first_cancelled_eval new_booking_def)
  show ?thesis
    using c e t a r
      status_changes [of "[CancelOPD (call 4000 0) 101 1 None, CancelOPD (call 4500 0) 102 2 None]"
        first_cancelled "call 6000 0" "''verified''" Verified 90 101 "''clinic''"]
    by (simp add: first_cancelled_eval new_booking_def call_def)
qed

section \<open>Patient cancellation without a matching row\<close>

lemma cancel_rows_no_match:
  "filter (\<lambda>b. booking_id b = bookingId \<and> patient_id b = patientId \<and> status b = Pending) tbl = []
   \<Longrightarrow> cancel_rows t bookingId patientId reason tbl = tbl"
  unfolding cancel_rows_def by (induction tbl) (auto split: if_splits)

text \<open>
  C10. With the storage reachable, \<^verbatim>\<open>cancelOPDBooking\<close> and \<^verbatim>\<open>cancelClinicBooking\<close>
  resolve to \<^verbatim>\<open>{error: null}\<close> on every input; when no row has the given id, the given
  patient and the status pending (unknown id, another patient's booking, or a booking that is
  not pending) the database is left as it was, so the caller sees the same answer for a
  cancellation and for a no-op.
\<close>

theorem cancel_no_match_reports_success:
  assumes "infra e = None"
  shows "fst (cancelOPDBooking e bookingId patientId reason s) = \<lparr>error = None\<rparr>
       \<and> fst (cancelClinicBooking e bookingId patientId reason s) = \<lparr>error = None\<rparr>
       \<and> (filter (\<lambda>b. booking_id b = bookingId \<and> patient_id b = patientId \<and> status b = Pending)
             (opd_bookings s) = []
           \<longrightarrow> snd (cancelOPDBooking e bookingId patientId reason s) = s)
       \<and> (filter (\<lambda>b. booking_id b = bookingId \<and> patient_id b = patientId \<and> status b = Pending)
             (clinic_bookings s) = []
           \<longrightarrow> snd (cancelClinicBooking e bookingId patientId reason s) = s)"
  using assms
  by (simp add: cancelOPDBooking_def cancelClinicBooking_def cancel_rows_no_match)

text \<open>
  Witness: in the hospital where the booking with slot 1 is already cancelled, patient 1
  cancels it again, patient 2 tries to cancel it, and somebody cancels the unknown booking 999:
  each call answers \<^verbatim>\<open>{error: null}\<close> and changes nothing, exactly the answer of the
  first, real cancellation.
\<close>

theorem cancel_no_match_reports_success_witness:
  "infra (call 4000 0) = None
   \<and> cancelOPDBooking (call 4000 0) 101 1 None first_cancelled = (\<lparr>error = None\<rparr>, first_cancelled)
   \<and> cancelOPDBooking (call 4000 0) 101 2 None first_cancelled = (\<lparr>error = None\<rparr>, first_cancelled)
   \<and> cancelOPDBooking (call 4000 0) 999 1 None first_cancelled = (\<lparr>error = None\<rparr>, first_cancelled)
   \<and> cancelClinicBooking (call 4000 0) 101 1 None first_cancelled = (\<lparr>error = None\<rparr>, first_cancelled)
   \<and> fst (cancelOPDBooking (call 3000 0) 101 1 None two_booked) = \<lparr>error = None\<rparr>
   \<and> snd (cancelOPDBooking (call 3000 0) 101 1 None two_booked) \<noteq> two_booked"
proof -
  have e: "infra (call 4000 0) = None" by (simp add: call_def)
  have m1: "filter (\<lambda>b. booking_id b = 101 \<and> patient_id b = 1 \<and> status b = Pending)
              (opd_bookings first_cancelled) = []"
    and m2: "filter (\<lambda>b. booking_id b = 101 \<and> patient_id b = 2 \<and> status b = Pending)
              (opd_bookings first_cancelled) = []"
    and m3: "filter (\<lambda>b. booking_id b = 999 \<and> patient_id b = 1 \<and> status b = Pending)
              (opd_bookings first_cancelled) = []"
    and m4: "filter (\<lambda>b. booking_id b = 101 \<and> patient_id b = 1 \<and> status b = Pending)
              (clinic_bookings first_cancelled) = []"
    by (simp_all add: first_cancelled_eval new_booking_def call_def)
  have real: "snd (cancelOPDBooking (call 3000 0) 101 1 None two_booked) \<noteq> two_booked"
  proof
    assume "snd (cancelOPDBooking (call 3000 0) 101 1 None two_booked) = two_booked"
    then have "opd_bookings (snd (cancelOPDBooking (call 3000 0) 101 1 None two_booked))
               = opd_bookings two_booked" by simp
    then show False
      by (simp add: cancelOPDBooking_def call_def cancel_rows_def two_booked_eval new_booking_def)
  qed
  have "fst (cancelOPDBooking (call 3000 0) 101 1 None two_booked) = \<lparr>error = None\<rparr>"
    by (simp add: cancelOPDBooking_def call_def)
  with e real m1 m2 m3 m4
    cancel_no_match_reports_success [OF e, of 101 1 None first_cancelled]
    cancel_no_match_reports_success [OF e, of 101 2 None first_cancelled]
    cancel_no_match_reports_success [OF e, of 999 1 None first_cancelled]
  show ?thesis by (simp add: prod_eq_iff)
qed

end
